theory Spec2Isabelle
  imports Main "HOL-Library.Sublist" "HOL-Library.AList"
begin

section \<open>Python values, errors and strings\<close>

text \<open>
  The batch-job engine of \<^verbatim>\<open>llm_extct_meta.py\<close> works on values read with
  \<^verbatim>\<open>json.load\<close>. A dictionary is an association list in insertion order
  (\<^const>\<open>AList.update\<close> is the assignment \<^verbatim>\<open>d[k] = v\<close>: it replaces the value of an
  existing key in place and appends a new key at the end, \<^const>\<open>map_of\<close> is the lookup,
  \<^const>\<open>AList.delete\<close> is \<^verbatim>\<open>del d[k]\<close>). JSON numbers are integers here: no function of
  the engine inspects a number.
\<close>

datatype json =
    JNull
  | JBool bool
  | JInt int
  | JStr string
  | JArr "json list"
  | JObj "(string \<times> json) list"

datatype py_error =
    AttributeError
  | TypeError
  | KeyError
  | ValueError
  | FileNotFoundError
  | JSONDecodeError
  | OSError
  | ServiceError

text \<open>Truth value of a JSON value in a Python condition (\<^verbatim>\<open>if not batch_id\<close>).\<close>

fun truthy :: "json \<Rightarrow> bool" where
  "truthy JNull = False"
| "truthy (JBool b) = b"
| "truthy (JInt n) = (n \<noteq> 0)"
| "truthy (JStr s) = (s \<noteq> [])"
| "truthy (JArr xs) = (xs \<noteq> [])"
| "truthy (JObj kvs) = (kvs \<noteq> [])"

text \<open>\<^verbatim>\<open>d.get(k, default)\<close> on a dictionary.\<close>

definition dict_get :: "(string \<times> json) list \<Rightarrow> string \<Rightarrow> json \<Rightarrow> json" where
  "dict_get d k dflt = (case map_of d k of None \<Rightarrow> dflt | Some v \<Rightarrow> v)"

text \<open>
  \<^verbatim>\<open>s.split(sep)\<close> for a non-empty separator: the string is scanned from the left and cut
  at every occurrence of the separator that does not overlap an earlier one. (Python raises
  ValueError for an empty separator; the engine only splits on literals.)
\<close>

function split_acc :: "string \<Rightarrow> string \<Rightarrow> string \<Rightarrow> string list" where
  "split_acc sep cur [] = [cur]"
| "split_acc sep cur (c # cs) =
     (if sep \<noteq> [] \<and> prefix sep (c # cs)
      then cur # split_acc sep [] (drop (length sep) (c # cs))
      else split_acc sep (cur @ [c]) cs)"
  by pat_completeness auto
termination
  by (relation "measure (\<lambda>(sep, cur, s). length s)") (auto simp: neq_Nil_conv)

definition py_split :: "string \<Rightarrow> string \<Rightarrow> string list" where
  "py_split sep s = split_acc sep [] s"

text \<open>
  \<^verbatim>\<open>s.replace(old, new)\<close> for a non-empty \<^verbatim>\<open>old\<close>: every occurrence, from the left,
  not overlapping an earlier one, is replaced.
\<close>

function py_replace :: "string \<Rightarrow> string \<Rightarrow> string \<Rightarrow> string" where
  "py_replace old new [] = []"
| "py_replace old new (c # cs) =
     (if old \<noteq> [] \<and> prefix old (c # cs)
      then new @ py_replace old new (drop (length old) (c # cs))
      else c # py_replace old new cs)"
  by pat_completeness auto
termination
  by (relation "measure (\<lambda>(old, new, s). length s)") (auto simp: neq_Nil_conv)

text \<open>\<^verbatim>\<open>s.rfind(c)\<close> for a single character: the last index of \<^verbatim>\<open>c\<close>, or -1.\<close>

fun rfind_char :: "char \<Rightarrow> string \<Rightarrow> int" where
  "rfind_char c [] = - 1"
| "rfind_char c (x # xs) =
     (let r = rfind_char c xs
      in if 0 \<le> r then r + 1 else if x = c then 0 else - 1)"

text \<open>
  \<^verbatim>\<open>sep.join(parts)\<close>: TypeError unless every part is a string.
\<close>

fun join_strs :: "string \<Rightarrow> string list \<Rightarrow> string" where
  "join_strs sep [] = []"
| "join_strs sep [s] = s"
| "join_strs sep (s # t # ts) = s @ sep @ join_strs sep (t # ts)"

fun str_parts :: "json list \<Rightarrow> string list option" where
  "str_parts [] = Some []"
| "str_parts (JStr s # ps) = map_option ((#) s) (str_parts ps)"
| "str_parts (_ # ps) = None"

definition py_join :: "string \<Rightarrow> json list \<Rightarrow> py_error + string" where
  "py_join sep parts =
     (case str_parts parts of None \<Rightarrow> Inl TypeError | Some ss \<Rightarrow> Inr (join_strs sep ss))"

text \<open>
  Formatting a value inside an f-string: a string is inserted as it is; what Python's
  \<^verbatim>\<open>str()\<close> prints for any other value is the parameter \<open>repr\<close>.
\<close>

definition format_value :: "(json \<Rightarrow> string) \<Rightarrow> json \<Rightarrow> string" where
  "format_value repr v = (case v of JStr s \<Rightarrow> s | _ \<Rightarrow> repr v)"

text \<open>
  \<^verbatim>\<open>for item in items\<close>: a list gives its elements, a string its characters, a
  dictionary its keys; nothing else is iterable.
\<close>

fun py_iter :: "json \<Rightarrow> py_error + json list" where
  "py_iter (JArr xs) = Inr xs"
| "py_iter (JStr s) = Inr (map (\<lambda>c. JStr [c]) s)"
| "py_iter (JObj kvs) = Inr (map (\<lambda>kv. JStr (fst kv)) kvs)"
| "py_iter _ = Inl TypeError"

section \<open>Paths and the file system\<close>

text \<open>
  \<^verbatim>\<open>os.path.join(a, b)\<close> and \<^verbatim>\<open>Path(p).stem\<close> on POSIX paths: the name of a path is its
  last component that is neither empty nor a single dot (the empty string when there is
  none); the stem cuts the name at its last dot unless that dot is the first or the last
  character.
\<close>

definition os_path_join :: "string \<Rightarrow> string \<Rightarrow> string" where
  "os_path_join a b =
     (if prefix ''/'' b then b
      else if a = [] \<or> suffix ''/'' a then a @ b
      else a @ ''/'' @ b)"

definition path_name :: "string \<Rightarrow> string" where
  "path_name p =
     (case filter (\<lambda>c. c \<noteq> [] \<and> c \<noteq> ''.'') (py_split ''/'' p) of
        [] \<Rightarrow> []
      | c # cs \<Rightarrow> last (c # cs))"

definition path_stem :: "string \<Rightarrow> string" where
  "path_stem p =
     (let name = path_name p; i = rfind_char (CHR ''.'') name
      in if 0 < i \<and> i < int (length name) - 1 then take (nat i) name else name)"

text \<open>
  A file holds a JSON document, the lines of a JSONL file, or text that
  \<^verbatim>\<open>json.load\<close> rejects. The file system maps a path to its file.
\<close>

datatype fcontent = JsonDoc json | JsonLines "json list" | Unparsable

type_synonym fs = "string \<rightharpoonup> fcontent"

definition json_load :: "fs \<Rightarrow> string \<Rightarrow> py_error + json" where
  "json_load files p =
     (case files p of
        None \<Rightarrow> Inl FileNotFoundError
      | Some (JsonDoc j) \<Rightarrow> Inr j
      | Some (JsonLines [j]) \<Rightarrow> Inr j
      | Some _ \<Rightarrow> Inl JSONDecodeError)"

text \<open>
  \<^verbatim>\<open>with open(p, "w") as f: json.dump(j, f)\<close> where its failure is observed: opening may
  raise, which leaves the file system as it was, or the dump may raise after the file was
  created or truncated, which leaves text that is not a JSON document.
\<close>

datatype write_outcome = WriteOk | OpenRaises | DumpRaises

fun write_json :: "write_outcome \<Rightarrow> string \<Rightarrow> json \<Rightarrow> fs \<Rightarrow> py_error option \<times> fs" where
  "write_json WriteOk p j files = (None, files(p \<mapsto> JsonDoc j))"
| "write_json OpenRaises p j files = (Some OSError, files)"
| "write_json DumpRaises p j files = (Some OSError, files(p \<mapsto> Unparsable))"

section \<open>The external batch service\<close>

text \<open>
  The client of the batch service and the clock are collaborators. Each call either
  raises or returns: \<open>files_create\<close> the handle of the uploaded file, \<open>batches_create\<close>
  the job identifier, \<open>batches_retrieve\<close> the job's status and output file handle,
  \<open>files_content\<close> the downloaded text, given as the lines of
  \<^verbatim>\<open>text.strip().split('\n')\<close>, each with the value \<^verbatim>\<open>json.loads\<close> reads from it
  (\<open>None\<close> where it raises). \<open>record_write\<close> is the outcome of the submitter's write
  of the job record, \<open>py_repr\<close> what \<^verbatim>\<open>str()\<close> prints for a value that is not a string.
  The other writes of the engine go to directories the driver has just created and are
  taken to succeed.
\<close>

record env =
  files_create :: "fcontent \<Rightarrow> py_error + string"
  batches_create :: "string \<Rightarrow> py_error + string"
  batches_retrieve :: "json \<Rightarrow> py_error + (string \<times> string option)"
  files_content :: "string \<Rightarrow> py_error + json option list"
  now_iso :: string
  record_write :: write_outcome
  py_repr :: "json \<Rightarrow> string"

section \<open>Context builder and batch request compiler\<close>

text \<open>Lines 41-47 of \<^verbatim>\<open>prepare_context_for_llm\<close>: the part one element appends.\<close>

definition item_part :: "(json \<Rightarrow> string) \<Rightarrow> json \<Rightarrow> py_error + json" where
  "item_part repr item =
     (case item of
        JObj kvs \<Rightarrow>
          if map_of kvs ''category'' = Some (JStr ''Table'')
          then Inr (JStr (''Table: '' @ format_value repr (dict_get kvs ''table_analysis'' (JStr []))))
          else if map_of kvs ''category'' = Some (JStr ''Image'')
          then Inr (JStr (''Image: '' @ format_value repr (dict_get kvs ''vision_analysis'' (JStr []))))
          else Inr (dict_get kvs ''content'' (JStr []))
      | _ \<Rightarrow> Inl AttributeError)"

fun collect_parts :: "(json \<Rightarrow> string) \<Rightarrow> json list \<Rightarrow> py_error + json list" where
  "collect_parts repr [] = Inr []"
| "collect_parts repr (item # items) =
     (case item_part repr item of
        Inl e \<Rightarrow> Inl e
      | Inr part \<Rightarrow>
          (case collect_parts repr items of
             Inl e \<Rightarrow> Inl e
           | Inr parts \<Rightarrow> Inr (part # parts)))"

text \<open>Lines 39-48: the loop over the pages, \<open>contexts\<close> being the dictionary built so far.\<close>

fun build_contexts ::
  "(json \<Rightarrow> string) \<Rightarrow> (string \<times> string) list \<Rightarrow> (string \<times> json) list
    \<Rightarrow> py_error + (string \<times> string) list" where
  "build_contexts repr contexts [] = Inr contexts"
| "build_contexts repr contexts ((page, items) # rest) =
     (case py_iter items of
        Inl e \<Rightarrow> Inl e
      | Inr its \<Rightarrow>
          (case collect_parts repr its of
             Inl e \<Rightarrow> Inl e
           | Inr parts \<Rightarrow>
               (case py_join '' '' (JStr (''Page '' @ page @ '':'') # parts) of
                  Inl e \<Rightarrow> Inl e
                | Inr context \<Rightarrow> build_contexts repr (AList.update page context contexts) rest)))"

text \<open>
  \<^verbatim>\<open>prepare_context_for_llm\<close>: \<^verbatim>\<open>len(pdf_data)\<close> raises TypeError on a value without a
  length, \<^verbatim>\<open>pdf_data.items()\<close> raises AttributeError on a string or a list.
\<close>

definition prepare_context_for_llm ::
  "(json \<Rightarrow> string) \<Rightarrow> json \<Rightarrow> py_error + (string \<times> string) list" where
  "prepare_context_for_llm repr pdf_data =
     (case pdf_data of
        JObj pages \<Rightarrow> build_contexts repr [] pages
      | JStr s \<Rightarrow> Inl AttributeError
      | JArr xs \<Rightarrow> Inl AttributeError
      | _ \<Rightarrow> Inl TypeError)"

text \<open>Line 64: the correlation identifier of a request.\<close>

definition custom_id :: "string \<Rightarrow> string \<Rightarrow> string" where
  "custom_id pdf_name page = pdf_name @ ''__page-'' @ page"

text \<open>Lines 65-75: the request object of one page.\<close>

definition request :: "string \<Rightarrow> string \<Rightarrow> string \<Rightarrow> string \<Rightarrow> json" where
  "request cid model system_prompt context =
     JObj [(''custom_id'', JStr cid),
           (''body'', JObj [(''model'', JStr model),
                            (''messages'',
                               JArr [JObj [(''role'', JStr ''system''), (''content'', JStr system_prompt)],
                                     JObj [(''role'', JStr ''user''), (''content'', JStr context)]]),
                            (''max_completion_tokens'', JInt 6000)])]"

text \<open>Lines 63-77: the loop over the contexts of one document.\<close>

fun page_loop ::
  "string \<Rightarrow> string \<Rightarrow> string \<Rightarrow> (string \<times> string) list
    \<Rightarrow> json list \<times> (string \<times> json) list \<Rightarrow> json list \<times> (string \<times> json) list" where
  "page_loop pdf_name model system_prompt [] acc = acc"
| "page_loop pdf_name model system_prompt ((page, context) # rest) (batch_lines, pages_meta) =
     page_loop pdf_name model system_prompt rest
       (batch_lines @ [request (custom_id pdf_name page) model system_prompt context],
        AList.update page (JObj [(''status'', JStr ''queued'')]) pages_meta)"

text \<open>Lines 60-78: the loop over the documents.\<close>

fun pdf_loop ::
  "(json \<Rightarrow> string) \<Rightarrow> string \<Rightarrow> string \<Rightarrow> (string \<times> json) list
    \<Rightarrow> json list \<times> (string \<times> json) list \<Rightarrow> py_error + json list \<times> (string \<times> json) list" where
  "pdf_loop repr model system_prompt [] acc = Inr acc"
| "pdf_loop repr model system_prompt ((pdf_name, pages) # rest) (batch_lines, batch_metadata) =
     (case prepare_context_for_llm repr pages of
        Inl e \<Rightarrow> Inl e
      | Inr contexts \<Rightarrow>
          (case page_loop pdf_name model system_prompt contexts (batch_lines, []) of
             (batch_lines', pages_meta) \<Rightarrow>
               pdf_loop repr model system_prompt rest
                 (batch_lines',
                  AList.update pdf_name (JObj [(''pages'', JObj pages_meta)]) batch_metadata)))"

text \<open>
  \<^verbatim>\<open>prepare_batch_file\<close>: the request lines go to the staging file
  \<^verbatim>\<open>batch_requests.jsonl\<close>; the result is its path and the metadata skeleton. An error
  of the context builder is not caught here.
\<close>

definition prepare_batch_file ::
  "(json \<Rightarrow> string) \<Rightarrow> json \<Rightarrow> string \<Rightarrow> string \<Rightarrow> fs \<Rightarrow> py_error + (string \<times> json) \<times> fs" where
  "prepare_batch_file repr pdf_data system_prompt model files =
     (case pdf_data of
        JObj docs \<Rightarrow>
          (case pdf_loop repr model system_prompt docs ([], []) of
             Inl e \<Rightarrow> Inl e
           | Inr (batch_lines, batch_metadata) \<Rightarrow>
               Inr ((''batch_requests.jsonl'', JObj batch_metadata),
                    files(''batch_requests.jsonl'' \<mapsto> JsonLines batch_lines)))
      | _ \<Rightarrow> Inl AttributeError)"

text \<open>The correlation identifier carried by a request line.\<close>

definition line_custom_id :: "json \<Rightarrow> string option" where
  "line_custom_id line =
     (case line of
        JObj kvs \<Rightarrow> (case map_of kvs ''custom_id'' of Some (JStr cid) \<Rightarrow> Some cid | _ \<Rightarrow> None)
      | _ \<Rightarrow> None)"

section \<open>Submitter\<close>

text \<open>Lines 95-96: the staging file is opened and uploaded.\<close>

definition upload :: "env \<Rightarrow> string \<Rightarrow> fs \<Rightarrow> py_error + string" where
  "upload e batch_file_path files =
     (case files batch_file_path of
        None \<Rightarrow> Inl FileNotFoundError
      | Some body \<Rightarrow> files_create e body)"

text \<open>Lines 104-110: the job record.\<close>

definition batch_info_record :: "string \<Rightarrow> string \<Rightarrow> string \<Rightarrow> json \<Rightarrow> json" where
  "batch_info_record batch_id input_file_id created_at metadata =
     JObj [(''batch_id'', JStr batch_id),
           (''input_file_id'', JStr input_file_id),
           (''created_at'', JStr created_at),
           (''status'', JStr ''submitted''),
           (''metadata'', metadata)]"

text \<open>
  \<^verbatim>\<open>submit_batch_job\<close>: every exception is caught and turns into the result \<^verbatim>\<open>None\<close>.
\<close>

definition submit_batch_job ::
  "env \<Rightarrow> string \<Rightarrow> string \<Rightarrow> json \<Rightarrow> fs \<Rightarrow> string option \<times> fs" where
  "submit_batch_job e batch_file_path state_dir metadata files =
     (case upload e batch_file_path files of
        Inl err \<Rightarrow> (None, files)
      | Inr input_file_id \<Rightarrow>
          (case batches_create e input_file_id of
             Inl err \<Rightarrow> (None, files)
           | Inr batch_id \<Rightarrow>
               (case write_json (record_write e) (os_path_join state_dir ''batch_info.json'')
                       (batch_info_record batch_id input_file_id (now_iso e) metadata) files of
                  (Some err, files') \<Rightarrow> (None, files')
                | (None, files') \<Rightarrow> (Some batch_id, files'))))"

section \<open>Reconciler\<close>

text \<open>Lines 150-152: the correlation identifier is split back into document and page.\<close>

definition decode_custom_id :: "string \<Rightarrow> py_error + string \<times> string" where
  "decode_custom_id cid =
     (case py_split ''__'' cid of
        [pdf, page_part] \<Rightarrow> Inr (pdf, py_replace ''page-'' [] page_part)
      | _ \<Rightarrow> Inl ValueError)"

text \<open>Lines 148-155: the results are grouped by document.\<close>

fun group_results ::
  "(string \<times> (string \<times> json) list) list \<Rightarrow> json list
    \<Rightarrow> py_error + (string \<times> (string \<times> json) list) list" where
  "group_results pdf_results [] = Inr pdf_results"
| "group_results pdf_results (res # rest) =
     (case res of
        JObj kvs \<Rightarrow>
          (case map_of kvs ''custom_id'' of
             None \<Rightarrow> Inl KeyError
           | Some (JStr cid) \<Rightarrow>
               (case decode_custom_id cid of
                  Inl e \<Rightarrow> Inl e
                | Inr (pdf, page) \<Rightarrow>
                    group_results
                      (AList.update pdf
                         (AList.update page (dict_get kvs ''response'' (JObj []))
                            (case map_of pdf_results pdf of None \<Rightarrow> [] | Some pages \<Rightarrow> pages))
                         pdf_results)
                      rest)
           | Some _ \<Rightarrow> Inl AttributeError)
      | _ \<Rightarrow> Inl TypeError)"

text \<open>Line 157: the path of a document's output artifact.\<close>

definition metadata_path :: "string \<Rightarrow> string \<Rightarrow> string" where
  "metadata_path output_dir pdf = os_path_join output_dir (path_stem pdf @ ''_metadata.json'')"

text \<open>Lines 156-160: one artifact per group, each a whole-file overwrite.\<close>

fun write_results :: "string \<Rightarrow> (string \<times> (string \<times> json) list) list \<Rightarrow> fs \<Rightarrow> fs" where
  "write_results output_dir [] files = files"
| "write_results output_dir ((pdf, pages) # rest) files =
     write_results output_dir rest (files(metadata_path output_dir pdf \<mapsto> JsonDoc (JObj pages)))"

text \<open>
  Lines 144-163: the completed branch. \<^verbatim>\<open>os.remove\<close> raises when the file is not there.
\<close>

definition download_results :: "env \<Rightarrow> string \<Rightarrow> string \<Rightarrow> string \<Rightarrow> fs \<Rightarrow> string \<times> fs" where
  "download_results e batch_info_path output_dir output_file_id files =
     (case files_content e output_file_id of
        Inl err \<Rightarrow> (''error'', files)
      | Inr lines \<Rightarrow>
          (case those lines of
             None \<Rightarrow> (''error'', files)
           | Some batch_results \<Rightarrow>
               (case group_results [] batch_results of
                  Inl err \<Rightarrow> (''error'', files)
                | Inr pdf_results \<Rightarrow>
                    (let files' = write_results output_dir pdf_results files
                     in if files' batch_info_path = None then (''error'', files')
                        else (''completed_and_processed'', files'(batch_info_path := None))))))"

text \<open>
  \<^verbatim>\<open>check_batch_status\<close>: every exception after the existence test is caught and turns
  into the result \<^verbatim>\<open>"error"\<close>, with the files as they were when it was raised.
\<close>

definition check_batch_status :: "env \<Rightarrow> string \<Rightarrow> string \<Rightarrow> fs \<Rightarrow> string \<times> fs" where
  "check_batch_status e state_dir output_dir files =
     (let batch_info_path = os_path_join state_dir ''batch_info.json''
      in if files batch_info_path = None then (''not_found'', files)
         else
           (case json_load files batch_info_path of
              Inl err \<Rightarrow> (''error'', files)
            | Inr (JObj batch_info) \<Rightarrow>
                (let batch_id = dict_get batch_info ''batch_id'' JNull
                 in if \<not> truthy batch_id then (''error'', files)
                    else
                      (case batches_retrieve e batch_id of
                         Inl err \<Rightarrow> (''error'', files)
                       | Inr (status, output_file_id) \<Rightarrow>
                           (let files1 = files(batch_info_path \<mapsto>
                                  JsonDoc (JObj (AList.update ''status'' (JStr status) batch_info)))
                            in case output_file_id of
                                 None \<Rightarrow> (status, files1)
                               | Some h \<Rightarrow>
                                   if status = ''completed'' \<and> h \<noteq> []
                                   then download_results e batch_info_path output_dir h files1
                                   else (status, files1))))
            | Inr _ \<Rightarrow> (''error'', files)))"

section \<open>Pipeline driver\<close>

text \<open>
  Lines 202-206: the documents whose artifact exists are deleted from the analyzed data.
\<close>

fun skip_processed ::
  "string \<Rightarrow> fs \<Rightarrow> string list \<Rightarrow> (string \<times> json) list \<Rightarrow> (string \<times> json) list" where
  "skip_processed output_dir files [] analyzed_data = analyzed_data"
| "skip_processed output_dir files (pdf # pdfs) analyzed_data =
     skip_processed output_dir files pdfs
       (if files (metadata_path output_dir pdf) \<noteq> None
        then AList.delete pdf analyzed_data else analyzed_data)"

text \<open>
  The driver returns nothing; the outcome records which of its return statements was
  reached, \<open>SubmitAttempted\<close> with the result of \<^verbatim>\<open>submit_batch_job\<close>.
\<close>

datatype outcome = AlreadyProcessed | StillProcessing | NoNewPdfs | SubmitAttempted "string option"

text \<open>
  Lines 197-220. The system prompt is the constant \<^verbatim>\<open>system_prompts\<close>, a parameter here.
  Exceptions are not caught in the driver.
\<close>

definition submit_new ::
  "env \<Rightarrow> string \<Rightarrow> string \<Rightarrow> string \<Rightarrow> string \<Rightarrow> string \<Rightarrow> fs \<Rightarrow> (py_error + outcome) \<times> fs" where
  "submit_new e system_prompt analyzed_data_file output_dir state_dir model files =
     (case json_load files analyzed_data_file of
        Inl err \<Rightarrow> (Inl err, files)
      | Inr (JObj analyzed_data) \<Rightarrow>
          (let remaining = skip_processed output_dir files (map fst analyzed_data) analyzed_data
           in if remaining = [] then (Inr NoNewPdfs, files)
              else
                (case prepare_batch_file (py_repr e) (JObj remaining) system_prompt model files of
                   Inl err \<Rightarrow> (Inl err, files)
                 | Inr ((batch_file, batch_metadata), files2) \<Rightarrow>
                     (case submit_batch_job e batch_file state_dir batch_metadata files2 of
                        (batch_id, files3) \<Rightarrow>
                          (Inr (SubmitAttempted batch_id),
                           if files3 batch_file \<noteq> None then files3(batch_file := None) else files3))))
      | Inr _ \<Rightarrow> (Inl AttributeError, files))"

text \<open>\<^verbatim>\<open>process_all_pdfs\<close>, lines 177-220.\<close>

definition process_all_pdfs ::
  "env \<Rightarrow> string \<Rightarrow> string \<Rightarrow> string \<Rightarrow> string \<Rightarrow> fs \<Rightarrow> (py_error + outcome) \<times> fs" where
  "process_all_pdfs e system_prompt analyzed_data_file output_dir model files =
     (let state_dir = os_path_join output_dir ''state'';
          batch_info_path = os_path_join state_dir ''batch_info.json''
      in if files batch_info_path \<noteq> None
         then
           (case check_batch_status e state_dir output_dir files of
              (status, files1) \<Rightarrow>
                if status \<in> set [''completed'', ''completed_and_processed'']
                then (Inr AlreadyProcessed, files1)
                else if status \<in> set [''submitted'', ''in_progress'']
                then (Inr StillProcessing, files1)
                else if files1 batch_info_path = None then (Inl FileNotFoundError, files1)
                else submit_new e system_prompt analyzed_data_file output_dir state_dir model
                       (files1(batch_info_path := None)))
         else submit_new e system_prompt analyzed_data_file output_dir state_dir model files)"

section \<open>Sample collaborators\<close>

text \<open>
  The client of the test suite (\<^verbatim>\<open>DummyClient\<close> in \<^verbatim>\<open>tests_llm_extct_meta.py\<close>): the upload
  returns the handle \<^verbatim>\<open>dummy_file_id\<close>, the creation the job \<^verbatim>\<open>dummy_batch_id\<close>, the
  retrieval a \<^verbatim>\<open>DummyBatch(status, output_file_id)\<close>, the download the given result
  lines. \<open>failing_call\<close> is a call that raises.
\<close>

definition dummy_files_create :: "fcontent \<Rightarrow> py_error + string" where
  "dummy_files_create body = Inr ''dummy_file_id''"

definition dummy_batches_create :: "string \<Rightarrow> py_error + string" where
  "dummy_batches_create input_file_id = Inr ''dummy_batch_id''"

definition dummy_retrieve ::
  "string \<Rightarrow> string option \<Rightarrow> json \<Rightarrow> py_error + (string \<times> string option)" where
  "dummy_retrieve status output_file_id batch_id = Inr (status, output_file_id)"

definition dummy_content :: "json list \<Rightarrow> string \<Rightarrow> py_error + json option list" where
  "dummy_content results output_file_id = Inr (map Some results)"

definition sample_repr :: "json \<Rightarrow> string" where
  "sample_repr v = ''None''"

definition dummy_client :: "string \<Rightarrow> string option \<Rightarrow> json list \<Rightarrow> env" where
  "dummy_client status output_file_id results =
     \<lparr>files_create = dummy_files_create,
      batches_create = dummy_batches_create,
      batches_retrieve = dummy_retrieve status output_file_id,
      files_content = dummy_content results,
      now_iso = ''2025-03-01T12:00:00'',
      record_write = WriteOk,
      py_repr = sample_repr\<rparr>"

definition failing_call :: "'a \<Rightarrow> py_error + 'b" where
  "failing_call x = Inl ServiceError"

text \<open>A job record, a staging file and a result line to run the engine on.\<close>

definition sample_record :: "string \<Rightarrow> json" where
  "sample_record status =
     JObj [(''batch_id'', JStr ''batch_1''),
           (''input_file_id'', JStr ''file_1''),
           (''created_at'', JStr ''2025-03-01T11:00:00''),
           (''status'', JStr status),
           (''metadata'', JObj [])]"

definition sample_staging :: fs where
  "sample_staging = [''batch_requests.jsonl'' \<mapsto> JsonLines [JObj [(''dummy'', JStr ''data'')]]]"


section \<open>Result lines of one document\<close>


text \<open>Result lines of two documents with the same stem.\<close>

definition report_result_lines :: "json list" where
  "report_result_lines =
     [JObj [(''custom_id'', JStr ''report.pdf__page-1''), (''response'', JObj [(''x'', JInt 1)])],
      JObj [(''custom_id'', JStr ''report.docx__page-2''), (''response'', JObj [(''y'', JInt 2)])]]"

section \<open>Statements about the context builder and the compiler\<close>

text \<open>
  The context of a page as C9 words it: the page label, then each element's effective
  text in order, where the effective text of a table or an image is its analysis field
  (the empty string when it is absent) and of any other element its content field (the
  empty string when it is absent). The separator between the parts is a parameter.
\<close>

definition spec_effective_text :: "json \<Rightarrow> string" where
  "spec_effective_text item =
     (case item of
        JObj kvs \<Rightarrow>
          (let field =
                 (if map_of kvs ''category'' = Some (JStr ''Table'') then ''table_analysis''
                  else if map_of kvs ''category'' = Some (JStr ''Image'') then ''vision_analysis''
                  else ''content'')
           in case map_of kvs field of Some (JStr s) \<Rightarrow> s | _ \<Rightarrow> [])
      | _ \<Rightarrow> [])"

definition spec_page_context :: "string \<Rightarrow> string \<Rightarrow> json list \<Rightarrow> string" where
  "spec_page_context sep page items =
     join_strs sep ((''Page '' @ page @ '':'') # map spec_effective_text items)"

text \<open>
  The context of a page as the amended C9 words it: a table contributes the label
  \<^verbatim>\<open>Table: \<close> followed by its analysis, an image the label \<^verbatim>\<open>Image: \<close> followed by
  its analysis (nothing after the label when the analysis is absent), any other element
  its content; every contribution follows a single space.
\<close>

definition labelled_text :: "(json \<Rightarrow> string) \<Rightarrow> json \<Rightarrow> string" where
  "labelled_text repr item =
     (case item of
        JObj kvs \<Rightarrow>
          if map_of kvs ''category'' = Some (JStr ''Table'')
          then ''Table: '' @ (case map_of kvs ''table_analysis'' of None \<Rightarrow> [] | Some v \<Rightarrow> format_value repr v)
          else if map_of kvs ''category'' = Some (JStr ''Image'')
          then ''Image: '' @ (case map_of kvs ''vision_analysis'' of None \<Rightarrow> [] | Some v \<Rightarrow> format_value repr v)
          else (case map_of kvs ''content'' of Some (JStr s) \<Rightarrow> s | _ \<Rightarrow> [])
      | _ \<Rightarrow> [])"

definition labelled_context :: "(json \<Rightarrow> string) \<Rightarrow> string \<Rightarrow> json list \<Rightarrow> string" where
  "labelled_context repr page items =
     ''Page '' @ page @ '':'' @ concat (map (\<lambda>item. '' '' @ labelled_text repr item) items)"

text \<open>
  The inputs the builder is meant for: every page maps to a list of elements, every
  element is an object, and the content of an element that is neither a table nor an
  image is a string when it is present. A mapping has every key once.
\<close>

definition element_ok :: "json \<Rightarrow> bool" where
  "element_ok item =
     (case item of
        JObj kvs \<Rightarrow>
          map_of kvs ''category'' = Some (JStr ''Table'')
          \<or> map_of kvs ''category'' = Some (JStr ''Image'')
          \<or> (case map_of kvs ''content'' of None \<Rightarrow> True | Some (JStr s) \<Rightarrow> True | Some _ \<Rightarrow> False)
      | _ \<Rightarrow> False)"

definition page_elements :: "json \<Rightarrow> json list" where
  "page_elements items = (case items of JArr its \<Rightarrow> its | _ \<Rightarrow> [])"

definition page_ok :: "json \<Rightarrow> bool" where
  "page_ok items = (case items of JArr its \<Rightarrow> list_all element_ok its | _ \<Rightarrow> False)"

definition pages_ok :: "(string \<times> json) list \<Rightarrow> bool" where
  "pages_ok pages = (distinct (map fst pages) \<and> list_all (\<lambda>pg. page_ok (snd pg)) pages)"

text \<open>
  The (document, page) pairs of an input mapping of the compiler, the well-formed input
  mappings, the request lines a call of \<^verbatim>\<open>prepare_batch_file\<close> left in the staging file,
  and the requests of one document.
\<close>

definition page_entries :: "json \<Rightarrow> (string \<times> json) list" where
  "page_entries pages = (case pages of JObj ps \<Rightarrow> ps | _ \<Rightarrow> [])"

definition doc_page_pairs :: "(string \<times> json) list \<Rightarrow> (string \<times> string) list" where
  "doc_page_pairs docs =
     concat (map (\<lambda>doc. map (\<lambda>pg. (fst doc, fst pg)) (page_entries (snd doc))) docs)"

definition docs_ok :: "(string \<times> json) list \<Rightarrow> bool" where
  "docs_ok docs =
     (distinct (map fst docs)
      \<and> list_all (\<lambda>doc. case snd doc of JObj pages \<Rightarrow> pages_ok pages | _ \<Rightarrow> False) docs)"

definition batch_lines_of :: "py_error + (string \<times> json) \<times> fs \<Rightarrow> json list" where
  "batch_lines_of r =
     (case r of
        Inr ((batch_file_path, batch_metadata), files) \<Rightarrow>
          (case files batch_file_path of Some (JsonLines batch_lines) \<Rightarrow> batch_lines | _ \<Rightarrow> [])
      | Inl e \<Rightarrow> [])"

definition doc_requests :: "(json \<Rightarrow> string) \<Rightarrow> string \<Rightarrow> string \<Rightarrow> string \<times> json \<Rightarrow> json list" where
  "doc_requests repr model sp doc =
     map (\<lambda>pg. request (custom_id (fst doc) (fst pg)) model sp
                 (labelled_context repr (fst pg) (page_elements (snd pg))))
       (page_entries (snd doc))"

text \<open>
  Sample inputs: the pages and the documents of the test suite
  (\<^verbatim>\<open>test_prepare_context_for_llm\<close>, \<^verbatim>\<open>test_prepare_batch_file\<close>), the input of the
  compile scenario as the specification writes it and with element lists in the place of
  the strings, and two documents whose pages get the same correlation identifier.
\<close>

definition test_pages :: "(string \<times> json) list" where
  "test_pages =
     [(''1'', JArr [JObj [(''category'', JStr ''Text''), (''content'', JStr ''Test content'')]]),
      (''2'', JArr [JObj [(''category'', JStr ''Table''),
                          (''table_analysis'', JStr ''Table analysis result'')]])]"

definition test_docs :: "(string \<times> json) list" where
  "test_docs =
     [(''dummy.pdf'',
       JObj [(''1'', JArr [JObj [(''category'', JStr ''Text''), (''content'', JStr ''Page 1 content'')]]),
             (''2'', JArr [JObj [(''category'', JStr ''Text''), (''content'', JStr ''Page 2 content'')]])])]"

definition scenario_docs :: "(string \<times> json) list" where
  "scenario_docs =
     [(''A.pdf'', JObj [(''1'', JStr ''text1'')]),
      (''B.pdf'', JObj [(''1'', JStr ''text2''), (''2'', JStr ''text3'')])]"

definition text_element :: "string \<Rightarrow> json" where
  "text_element s = JObj [(''category'', JStr ''Text''), (''content'', JStr s)]"

definition typed_scenario_docs :: "(string \<times> json) list" where
  "typed_scenario_docs =
     [(''A.pdf'', JObj [(''1'', JArr [text_element ''text1''])]),
      (''B.pdf'', JObj [(''1'', JArr [text_element ''text2'']),
                        (''2'', JArr [text_element ''text3''])])]"

definition colliding_docs :: "(string \<times> json) list" where
  "colliding_docs =
     [(''a'', JObj [(''b__page-c'', JArr [])]),
      (''a__page-b'', JObj [(''c'', JArr [])])]"

text \<open>
  The files before a run of the driver: the record of the job \<^verbatim>\<open>batch_1\<close> with the
  status \<^verbatim>\<open>validating\<close>, and analyzed data with one document that has no artifact yet.
\<close>

definition validating_files :: fs where
  "validating_files =
     [''out/state/batch_info.json'' \<mapsto> JsonDoc (sample_record ''validating''),
      ''analyzed.json'' \<mapsto> JsonDoc (JObj test_docs)]"

section \<open>Splitting and replacing\<close>

lemma split_acc_no_sep:
  "\<not> sublist sep s \<Longrightarrow> split_acc sep cur s = [cur @ s]"
  by (induction s arbitrary: cur) (auto simp: sublist_Cons_right)

lemma py_replace_no_old:
  "\<not> sublist old s \<Longrightarrow> py_replace old new s = s"
  by (induction s) (auto simp: sublist_Cons_right)

lemma not_suffix_underscore:
  "\<not> suffix ''_'' s \<longleftrightarrow> s = [] \<or> last s \<noteq> CHR ''_''"
  by (cases s rule: rev_cases) (auto simp: suffix_def)

lemma split_acc_first:
  "\<not> sublist ''__'' doc \<Longrightarrow> \<not> suffix ''_'' doc \<Longrightarrow>
   split_acc ''__'' cur (doc @ ''__'' @ rest) = (cur @ doc) # split_acc ''__'' [] rest"
proof (induction doc arbitrary: cur)
  case Nil
  then show ?case by simp
next
  case (Cons c d)
  then show ?case
    by (cases d) (auto simp: sublist_Cons_right not_suffix_underscore)
qed

lemma no_sep_in_page_part:
  "\<not> sublist ''__'' page \<Longrightarrow> \<not> sublist ''__'' (''page-'' @ page)"
  by (cases page) (auto simp: sublist_Cons_right)

section \<open>Correlation identifiers\<close>

text \<open>
  C2 (correlation round-trip), as amended. A document identifier that contains no
  \<^verbatim>\<open>__\<close> and does not end with an underscore, and a page identifier that contains
  neither \<^verbatim>\<open>__\<close> nor \<^verbatim>\<open>page-\<close>, are recovered exactly: encoding the pair as
  \<^verbatim>\<open>f"{pdf_name}__page-{page}"\<close> and decoding it as \<^verbatim>\<open>check_batch_status\<close> does
  (split on \<^verbatim>\<open>__\<close>, unpack into two parts, remove \<^verbatim>\<open>page-\<close>) gives the pair back.
\<close>

theorem correlation_round_trip_amended:
  assumes "\<not> sublist ''__'' pdf_name" and "\<not> suffix ''_'' pdf_name"
    and "\<not> sublist ''__'' page" and "\<not> sublist ''page-'' page"
  shows "decode_custom_id (custom_id pdf_name page) = Inr (pdf_name, page)"
proof -
  have "py_split ''__'' (custom_id pdf_name page) = [pdf_name, ''page-'' @ page]"
    using split_acc_first [OF assms(1,2), of "[]" "''page-'' @ page"]
      split_acc_no_sep [OF no_sep_in_page_part [OF assms(3)], of "[]"]
    by (simp add: py_split_def custom_id_def)
  moreover have "py_replace ''page-'' [] (''page-'' @ page) = page"
    using py_replace_no_old [OF assms(4), of "[]"] by simp
  ultimately show ?thesis
    by (simp add: decode_custom_id_def)
qed

text \<open>The round trip of the pair (\<^verbatim>\<open>A.pdf\<close>, \<^verbatim>\<open>1\<close>).\<close>

theorem correlation_round_trip_witness:
  "\<not> sublist ''__'' ''A.pdf'' \<and> \<not> suffix ''_'' ''A.pdf''
   \<and> \<not> sublist ''__'' ''1'' \<and> \<not> sublist ''page-'' ''1''
   \<and> decode_custom_id (custom_id ''A.pdf'' ''1'') = Inr (''A.pdf'', ''1'')"
proof -
  have h1: "\<not> sublist ''__'' ''A.pdf''" by (simp add: sublist_Cons_right)
  have h2: "\<not> suffix ''_'' ''A.pdf''" by (simp add: not_suffix_underscore)
  have h3: "\<not> sublist ''__'' ''1''" by (simp add: sublist_Cons_right)
  have h4: "\<not> sublist ''page-'' ''1''" by (simp add: sublist_Cons_right)
  show ?thesis
    using correlation_round_trip_amended [OF h1 h2 h3 h4] h1 h2 h3 h4 by simp
qed

text \<open>
  C2 as stated fails. The document \<^verbatim>\<open>a_\<close> contains no \<^verbatim>\<open>__\<close> and the page
  \<^verbatim>\<open>1\<close> no \<^verbatim>\<open>page-\<close>, but the identifier \<^verbatim>\<open>a___page-1\<close> is split after the
  first two underscores and decodes to (\<^verbatim>\<open>a\<close>, \<^verbatim>\<open>_1\<close>). The page \<^verbatim>\<open>1__2\<close> contains
  no \<^verbatim>\<open>page-\<close>, but the identifier splits into three parts and the unpacking raises
  ValueError.
\<close>

theorem correlation_round_trip_counterexample:
  "\<not> sublist ''__'' ''a_'' \<and> \<not> sublist ''page-'' ''1''
   \<and> decode_custom_id (custom_id ''a_'' ''1'') = Inr (''a'', ''_1'')
   \<and> \<not> sublist ''__'' ''A.pdf'' \<and> \<not> sublist ''page-'' ''1__2''
   \<and> decode_custom_id (custom_id ''A.pdf'' ''1__2'') = Inl ValueError"
  by (simp add: sublist_Cons_right decode_custom_id_def custom_id_def py_split_def)

section \<open>Reconciler and submitter\<close>



lemma sample_paths:
  "os_path_join ''out/state'' ''batch_info.json'' = ''out/state/batch_info.json''"
  by (simp add: os_path_join_def suffix_def)







text \<open>
  C5 (submitter atomicity), as amended. When the upload (opening the staging file
  included), the job creation or the opening of the record file raises,
  \<^verbatim>\<open>submit_batch_job\<close> returns \<^verbatim>\<open>None\<close> and the files are unchanged. When the dump of
  the record raises after the record file was opened, it returns \<^verbatim>\<open>None\<close> and leaves
  unparsable text at the path of the job record. When every step succeeds, it returns
  the job identifier and the only change is the job record, which holds the job
  identifier, the input file handle, the creation time, the status \<^verbatim>\<open>submitted\<close> and
  the metadata skeleton it was given.
\<close>

theorem submitter_atomicity_amended:
  "(\<forall>err. upload e batch_file_path files = Inl err \<longrightarrow>
      submit_batch_job e batch_file_path state_dir metadata files = (None, files))
 \<and> (\<forall>input_file_id err.
      upload e batch_file_path files = Inr input_file_id \<longrightarrow>
      batches_create e input_file_id = Inl err \<longrightarrow>
      submit_batch_job e batch_file_path state_dir metadata files = (None, files))
 \<and> (\<forall>input_file_id batch_id.
      upload e batch_file_path files = Inr input_file_id \<longrightarrow>
      batches_create e input_file_id = Inr batch_id \<longrightarrow>
      record_write e = OpenRaises \<longrightarrow>
      submit_batch_job e batch_file_path state_dir metadata files = (None, files))
 \<and> (\<forall>input_file_id batch_id.
      upload e batch_file_path files = Inr input_file_id \<longrightarrow>
      batches_create e input_file_id = Inr batch_id \<longrightarrow>
      record_write e = DumpRaises \<longrightarrow>
      submit_batch_job e batch_file_path state_dir metadata files
        = (None, files(os_path_join state_dir ''batch_info.json'' \<mapsto> Unparsable)))
 \<and> (\<forall>input_file_id batch_id.
      upload e batch_file_path files = Inr input_file_id \<longrightarrow>
      batches_create e input_file_id = Inr batch_id \<longrightarrow>
      record_write e = WriteOk \<longrightarrow>
      submit_batch_job e batch_file_path state_dir metadata files
        = (Some batch_id,
           files(os_path_join state_dir ''batch_info.json'' \<mapsto>
             JsonDoc (JObj [(''batch_id'', JStr batch_id),
                            (''input_file_id'', JStr input_file_id),
                            (''created_at'', JStr (now_iso e)),
                            (''status'', JStr ''submitted''),
                            (''metadata'', metadata)]))))"
  by (simp add: submit_batch_job_def batch_info_record_def)








text \<open>
  The client of the test suite with a failing upload, a failing job creation, a record
  file that cannot be opened, and with every step succeeding.
\<close>

theorem submitter_atomicity_witness:
  "submit_batch_job (dummy_client ''validating'' None []\<lparr>files_create := failing_call\<rparr>)
      ''batch_requests.jsonl'' ''out/state'' (JObj [(''dummy'', JStr ''meta'')]) sample_staging
   = (None, sample_staging)
 \<and> submit_batch_job (dummy_client ''validating'' None []\<lparr>batches_create := failing_call\<rparr>)
      ''batch_requests.jsonl'' ''out/state'' (JObj [(''dummy'', JStr ''meta'')]) sample_staging
   = (None, sample_staging)
 \<and> submit_batch_job (dummy_client ''validating'' None []\<lparr>record_write := OpenRaises\<rparr>)
      ''batch_requests.jsonl'' ''out/state'' (JObj [(''dummy'', JStr ''meta'')]) sample_staging
   = (None, sample_staging)
 \<and> submit_batch_job (dummy_client ''validating'' None []\<lparr>record_write := WriteOk\<rparr>)
      ''batch_requests.jsonl'' ''out/state'' (JObj [(''dummy'', JStr ''meta'')]) sample_staging
   = (Some ''dummy_batch_id'',
      sample_staging(''out/state/batch_info.json'' \<mapsto>
        JsonDoc (JObj [(''batch_id'', JStr ''dummy_batch_id''),
                       (''input_file_id'', JStr ''dummy_file_id''),
                       (''created_at'', JStr ''2025-03-01T12:00:00''),
                       (''status'', JStr ''submitted''),
                       (''metadata'', JObj [(''dummy'', JStr ''meta'')])])))"
proof -
  let ?md = "JObj [(''dummy'', JStr ''meta'')]"
  let ?e1 = "dummy_client ''validating'' None []\<lparr>files_create := failing_call\<rparr>"
  let ?e2 = "dummy_client ''validating'' None []\<lparr>batches_create := failing_call\<rparr>"
  let ?e3 = "dummy_client ''validating'' None []\<lparr>record_write := OpenRaises\<rparr>"
  let ?e4 = "dummy_client ''validating'' None []\<lparr>record_write := WriteOk\<rparr>"
  have u1: "upload ?e1 ''batch_requests.jsonl'' sample_staging = Inl ServiceError"
    by (simp add: upload_def sample_staging_def failing_call_def)
  have u2: "upload ?e2 ''batch_requests.jsonl'' sample_staging = Inr ''dummy_file_id''"
    by (simp add: upload_def sample_staging_def dummy_client_def dummy_files_create_def)
  have c2: "batches_create ?e2 ''dummy_file_id'' = Inl ServiceError"
    by (simp add: failing_call_def)
  have u3: "upload ?e3 ''batch_requests.jsonl'' sample_staging = Inr ''dummy_file_id''"
    by (simp add: upload_def sample_staging_def dummy_client_def dummy_files_create_def)
  have c3: "batches_create ?e3 ''dummy_file_id'' = Inr ''dummy_batch_id''"
    by (simp add: dummy_client_def dummy_batches_create_def)
  have w3: "record_write ?e3 = OpenRaises"
    by simp
  have u4: "upload ?e4 ''batch_requests.jsonl'' sample_staging = Inr ''dummy_file_id''"
    by (simp add: upload_def sample_staging_def dummy_client_def dummy_files_create_def)
  have c4: "batches_create ?e4 ''dummy_file_id'' = Inr ''dummy_batch_id''"
    by (simp add: dummy_client_def dummy_batches_create_def)
  have w4: "record_write ?e4 = WriteOk"
    by simp
  have n4: "now_iso ?e4 = ''2025-03-01T12:00:00''"
    by (simp add: dummy_client_def)
  note t = submitter_atomicity_amended [where batch_file_path = "''batch_requests.jsonl''"
      and state_dir = "''out/state''" and metadata = ?md and files = sample_staging]
  note t1 = t [THEN conjunct1, rule_format]
  note t2 = t [THEN conjunct2, THEN conjunct1, rule_format]
  note t3 = t [THEN conjunct2, THEN conjunct2, THEN conjunct1, rule_format]
  note t5 = t [THEN conjunct2, THEN conjunct2, THEN conjunct2, THEN conjunct2, rule_format]
  show ?thesis
    using t1 [OF u1] t2 [OF u2 c2] t3 [OF u3 c3 w3] t5 [OF u4 c4 w4]
    by (simp only: n4 sample_paths simp_thms)
qed

text \<open>
  C5 as stated fails: when the dump raises after \<^verbatim>\<open>open(batch_info_path, "w")\<close> has
  created the file, the function returns \<^verbatim>\<open>None\<close> and a file that was not there
  before exists at the path of the job record.
\<close>

theorem submitter_atomicity_counterexample:
  "submit_batch_job (dummy_client ''validating'' None []\<lparr>record_write := DumpRaises\<rparr>)
      ''batch_requests.jsonl'' ''out/state'' (JObj [(''dummy'', JStr ''meta'')]) sample_staging
   = (None, sample_staging(''out/state/batch_info.json'' \<mapsto> Unparsable))
 \<and> sample_staging ''out/state/batch_info.json'' = None
 \<and> (sample_staging(''out/state/batch_info.json'' \<mapsto> Unparsable)) ''out/state/batch_info.json''
     = Some Unparsable"
  by (simp add: submit_batch_job_def upload_def sample_staging_def dummy_client_def
      dummy_files_create_def dummy_batches_create_def sample_paths)

section \<open>Artifact paths\<close>

lemma split_acc_slash_free_all:
  "CHR ''/'' \<notin> set cur \<Longrightarrow> \<forall>x \<in> set (split_acc ''/'' cur s). CHR ''/'' \<notin> set x"
proof (induction s arbitrary: cur)
  case Nil
  then show ?case by simp
next
  case (Cons c s)
  show ?case
  proof (cases "c = CHR ''/''")
    case True
    then show ?thesis
      using Cons.prems Cons.IH [of "[]"] by simp
  next
    case False
    then show ?thesis
      using Cons.prems Cons.IH [of "cur @ [c]"] by simp
  qed
qed

lemma split_acc_slash_free:
  "CHR ''/'' \<notin> set cur \<Longrightarrow> x \<in> set (split_acc ''/'' cur s) \<Longrightarrow> CHR ''/'' \<notin> set x"
  using split_acc_slash_free_all by blast

lemma path_name_slash_free: "CHR ''/'' \<notin> set (path_name p)"
proof -
  let ?cs = "filter (\<lambda>c. c \<noteq> [] \<and> c \<noteq> ''.'') (py_split ''/'' p)"
  show ?thesis
  proof (cases ?cs)
    case Nil
    then show ?thesis by (simp add: path_name_def)
  next
    case (Cons c cs)
    then have "path_name p \<in> set ?cs"
      by (simp only: path_name_def list.case) (metis last_in_set list.distinct(1))
    then have "path_name p \<in> set (split_acc ''/'' [] p)"
      by (simp add: py_split_def)
    then show ?thesis
      using split_acc_slash_free [of "[]"] by simp
  qed
qed

lemma path_stem_slash_free: "CHR ''/'' \<notin> set (path_stem p)"
  using path_name_slash_free [of p]
  by (auto simp: path_stem_def Let_def dest: in_set_takeD)

lemma artifact_name_slash_free:
  "CHR ''/'' \<notin> set (path_stem p @ ''_metadata.json'')"
  using path_stem_slash_free [of p] by simp

lemma os_path_join_relative:
  assumes "CHR ''/'' \<notin> set b"
  shows "\<exists>x. os_path_join a b = x @ b \<and> (x = [] \<or> last x = CHR ''/'')"
proof -
  have "\<not> prefix ''/'' b"
    using assms by (cases b) auto
  then show ?thesis
    by (cases "a = [] \<or> suffix ''/'' a")
      (auto simp: os_path_join_def suffix_def intro: exI [of _ "a @ ''/''"] exI [of _ a])
qed

lemma last_component:
  assumes "CHR ''/'' \<notin> set b" and "x = [] \<or> last x = CHR ''/''"
  shows "rev (takeWhile (\<lambda>c. c \<noteq> CHR ''/'') (rev (x @ b))) = b"
proof -
  have all: "\<And>c. c \<in> set (rev b) \<Longrightarrow> c \<noteq> CHR ''/''"
    using assms(1) by auto
  show ?thesis
  proof (cases x rule: rev_cases)
    case Nil
    have "takeWhile (\<lambda>c. c \<noteq> CHR ''/'') (rev b) = rev b"
      using all by (intro takeWhile_eq_all_conv [THEN iffD2]) blast
    then show ?thesis by (simp only: Nil append_Nil rev_rev_ident)
  next
    case (snoc ys y)
    then have y: "y = CHR ''/''" using assms(2) by simp
    have "takeWhile (\<lambda>c. c \<noteq> CHR ''/'') (rev b @ y # rev ys)
            = rev b @ takeWhile (\<lambda>c. c \<noteq> CHR ''/'') (y # rev ys)"
      using all by (rule takeWhile_append2)
    then show ?thesis using snoc y by simp
  qed
qed

lemma os_path_join_name:
  assumes "CHR ''/'' \<notin> set b"
  shows "rev (takeWhile (\<lambda>c. c \<noteq> CHR ''/'') (rev (os_path_join a b))) = b"
  using os_path_join_relative [OF assms, of a] last_component [OF assms] by metis



lemma metadata_path_eq_iff:
  "metadata_path output_dir pdf1 = metadata_path output_dir pdf2 \<longleftrightarrow>
   path_stem pdf1 = path_stem pdf2"
proof
  assume eq: "metadata_path output_dir pdf1 = metadata_path output_dir pdf2"
  have "\<And>p. rev (takeWhile (\<lambda>c. c \<noteq> CHR ''/'') (rev (metadata_path output_dir p)))
          = path_stem p @ ''_metadata.json''"
    unfolding metadata_path_def by (rule os_path_join_name [OF artifact_name_slash_free])
  then have "path_stem pdf1 @ ''_metadata.json'' = path_stem pdf2 @ ''_metadata.json''"
    using eq by metis
  then show "path_stem pdf1 = path_stem pdf2" by simp
next
  assume "path_stem pdf1 = path_stem pdf2"
  then show "metadata_path output_dir pdf1 = metadata_path output_dir pdf2"
    by (simp add: metadata_path_def)
qed

section \<open>Reconciliation and artifacts\<close>










lemma write_results_other:
  "\<forall>g \<in> set groups. metadata_path output_dir (fst g) \<noteq> q \<Longrightarrow>
   write_results output_dir groups files q = files q"
  by (induction groups arbitrary: files) auto

lemma write_results_append:
  "write_results output_dir (xs @ ys) files
     = write_results output_dir ys (write_results output_dir xs files)"
  by (induction xs arbitrary: files) auto

lemma write_results_later:
  assumes "path_stem pdf1 = path_stem pdf2"
    and "\<forall>g \<in> set zs. path_stem (fst g) \<noteq> path_stem pdf2"
  shows "write_results output_dir (xs @ (pdf1, pages1) # ys @ (pdf2, pages2) # zs) files
           (metadata_path output_dir pdf1) = Some (JsonDoc (JObj pages2))"
proof -
  let ?q = "metadata_path output_dir pdf1"
  have q: "metadata_path output_dir pdf2 = ?q"
    using assms(1) by (simp add: metadata_path_eq_iff)
  have "\<forall>g \<in> set zs. metadata_path output_dir (fst g) \<noteq> ?q"
    using assms by (simp add: metadata_path_eq_iff)
  then have "write_results output_dir zs
               ((write_results output_dir (xs @ (pdf1, pages1) # ys) files)(?q \<mapsto> JsonDoc (JObj pages2))) ?q
             = Some (JsonDoc (JObj pages2))"
    by (simp add: write_results_other)
  moreover have "xs @ (pdf1, pages1) # ys @ (pdf2, pages2) # zs
                   = (xs @ (pdf1, pages1) # ys) @ (pdf2, pages2) # zs"
    by simp
  ultimately show ?thesis
    by (simp only: write_results_append write_results.simps q)
qed

lemma skip_processed_filter:
  "skip_processed output_dir files pdfs analyzed_data
     = filter (\<lambda>kv. \<not> (fst kv \<in> set pdfs \<and> files (metadata_path output_dir (fst kv)) \<noteq> None))
         analyzed_data"
proof (induction pdfs arbitrary: analyzed_data)
  case Nil
  then show ?case by simp
next
  case (Cons pdf pdfs)
  show ?case
    by (auto simp: Cons.IH AList.delete_eq intro!: filter_cong)
qed

lemma skip_processed_keys:
  "skip_processed output_dir files (map fst analyzed_data) analyzed_data
     = filter (\<lambda>kv. files (metadata_path output_dir (fst kv)) = None) analyzed_data"
  by (simp add: skip_processed_filter cong: filter_cong)

text \<open>
  C10 (stem-keyed artifacts). Two documents with the same stem have the same artifact
  path \<^verbatim>\<open><stem>_metadata.json\<close>. When the reconciler writes the groups of both, the
  artifact holds the pages of the one written later, and nothing of the earlier one
  remains (no group after it having that stem). The driver's filter keeps exactly the
  documents for whose stem no artifact exists, so a document is skipped as soon as an
  artifact of a document with the same stem is there.
\<close>

theorem stem_keyed_artifacts:
  assumes "path_stem pdf1 = path_stem pdf2"
  shows "metadata_path output_dir pdf1
           = os_path_join output_dir (path_stem pdf2 @ ''_metadata.json'')
       \<and> (\<forall>xs ys zs pages1 pages2 files.
            (\<forall>g \<in> set zs. path_stem (fst g) \<noteq> path_stem pdf2) \<longrightarrow>
            write_results output_dir (xs @ (pdf1, pages1) # ys @ (pdf2, pages2) # zs) files
              (metadata_path output_dir pdf1) = Some (JsonDoc (JObj pages2)))
       \<and> (\<forall>files analyzed_data.
            files (metadata_path output_dir pdf2) \<noteq> None \<longrightarrow>
            pdf1 \<notin> set (map fst
              (skip_processed output_dir files (map fst analyzed_data) analyzed_data)))
       \<and> (\<forall>files analyzed_data.
            skip_processed output_dir files (map fst analyzed_data) analyzed_data
              = filter
                  (\<lambda>kv. files (os_path_join output_dir (path_stem (fst kv) @ ''_metadata.json''))
                          = None)
                  analyzed_data)"
proof (intro conjI allI impI)
  show "metadata_path output_dir pdf1
          = os_path_join output_dir (path_stem pdf2 @ ''_metadata.json'')"
    using assms by (simp add: metadata_path_def)
next
  fix xs ys zs :: "(string \<times> (string \<times> json) list) list" and pages1 pages2 and files :: fs
  assume "\<forall>g \<in> set zs. path_stem (fst g) \<noteq> path_stem pdf2"
  then show "write_results output_dir (xs @ (pdf1, pages1) # ys @ (pdf2, pages2) # zs) files
               (metadata_path output_dir pdf1) = Some (JsonDoc (JObj pages2))"
    using assms by (rule write_results_later [rotated])
next
  fix files :: fs and analyzed_data :: "(string \<times> json) list"
  assume "files (metadata_path output_dir pdf2) \<noteq> None"
  moreover have "metadata_path output_dir pdf1 = metadata_path output_dir pdf2"
    using assms by (simp add: metadata_path_eq_iff)
  ultimately show "pdf1 \<notin> set (map fst
      (skip_processed output_dir files (map fst analyzed_data) analyzed_data))"
    by (auto simp: skip_processed_keys)
next
  fix files :: fs and analyzed_data :: "(string \<times> json) list"
  show "skip_processed output_dir files (map fst analyzed_data) analyzed_data
          = filter (\<lambda>kv. files (os_path_join output_dir (path_stem (fst kv) @ ''_metadata.json''))
                          = None) analyzed_data"
    by (simp add: skip_processed_keys metadata_path_def)
qed


lemma report_stems:
  "path_stem ''report.pdf'' = ''report''" "path_stem ''report.docx'' = ''report''"
  by (simp_all add: path_stem_def path_name_def py_split_def Let_def)

lemma report_metadata_path:
  "metadata_path ''out'' ''report.pdf'' = ''out/report_metadata.json''"
  "metadata_path ''out'' ''report.docx'' = ''out/report_metadata.json''"
  by (simp_all add: metadata_path_def report_stems os_path_join_def suffix_def)

lemma report_decode:
  "decode_custom_id ''report.pdf__page-1'' = Inr (''report.pdf'', ''1'')"
  "decode_custom_id ''report.docx__page-2'' = Inr (''report.docx'', ''2'')"
  by (simp_all add: decode_custom_id_def py_split_def)

lemma report_reconcile:
  "check_batch_status (dummy_client ''completed'' (Some ''dummy_output_file_id'') report_result_lines)
      ''out/state'' ''out'' [''out/state/batch_info.json'' \<mapsto> JsonDoc (sample_record ''submitted'')]
   = (''completed_and_processed'',
      [''out/report_metadata.json'' \<mapsto> JsonDoc (JObj [(''2'', JObj [(''y'', JInt 2)])])])"
  by (simp add: check_batch_status_def sample_paths json_load_def sample_record_def
      dict_get_def dummy_client_def dummy_retrieve_def dummy_content_def download_results_def
      report_result_lines_def report_decode report_metadata_path fun_upd_twist)

text \<open>
  \<^verbatim>\<open>report.pdf\<close> and \<^verbatim>\<open>report.docx\<close>: the reconciliation reports success, the one
  artifact \<^verbatim>\<open>report_metadata.json\<close> holds only the page of \<^verbatim>\<open>report.docx\<close>, and the
  driver then skips \<^verbatim>\<open>report.pdf\<close>.
\<close>

theorem stem_keyed_artifacts_witness:
  "path_stem ''report.pdf'' = path_stem ''report.docx''
 \<and> metadata_path ''out'' ''report.pdf'' = os_path_join ''out'' (path_stem ''report.docx'' @ ''_metadata.json'')
 \<and> check_batch_status (dummy_client ''completed'' (Some ''dummy_output_file_id'') report_result_lines)
      ''out/state'' ''out'' [''out/state/batch_info.json'' \<mapsto> JsonDoc (sample_record ''submitted'')]
   = (''completed_and_processed'',
      [''out/report_metadata.json'' \<mapsto> JsonDoc (JObj [(''2'', JObj [(''y'', JInt 2)])])])
 \<and> write_results ''out''
      [(''report.pdf'', [(''1'', JObj [(''x'', JInt 1)])]),
       (''report.docx'', [(''2'', JObj [(''y'', JInt 2)])])] Map.empty
      (metadata_path ''out'' ''report.pdf'')
   = Some (JsonDoc (JObj [(''2'', JObj [(''y'', JInt 2)])]))
 \<and> ''report.pdf'' \<notin> set (map fst
      (skip_processed ''out''
         [''out/report_metadata.json'' \<mapsto> JsonDoc (JObj [(''2'', JObj [(''y'', JInt 2)])])]
         (map fst [(''report.pdf'', JObj [(''1'', JArr [])])])
         [(''report.pdf'', JObj [(''1'', JArr [])])]))"
proof -
  have h: "path_stem ''report.pdf'' = path_stem ''report.docx''"
    by (simp add: report_stems)
  note t = stem_keyed_artifacts [OF h, of "''out''"]
  have a: "metadata_path ''out'' ''report.pdf''
             = os_path_join ''out'' (path_stem ''report.docx'' @ ''_metadata.json'')"
    using t by (rule conjunct1)
  have "write_results ''out''
          ([] @ (''report.pdf'', [(''1'', JObj [(''x'', JInt 1)])]) # []
              @ (''report.docx'', [(''2'', JObj [(''y'', JInt 2)])]) # []) Map.empty
          (metadata_path ''out'' ''report.pdf'')
        = Some (JsonDoc (JObj [(''2'', JObj [(''y'', JInt 2)])]))"
    using t [THEN conjunct2, THEN conjunct1, rule_format,
        where xs = "[]" and ys = "[]" and zs = "[]"] by simp
  then have b: "write_results ''out''
          [(''report.pdf'', [(''1'', JObj [(''x'', JInt 1)])]),
           (''report.docx'', [(''2'', JObj [(''y'', JInt 2)])])] Map.empty
          (metadata_path ''out'' ''report.pdf'')
        = Some (JsonDoc (JObj [(''2'', JObj [(''y'', JInt 2)])]))"
    by simp
  have "[''out/report_metadata.json'' \<mapsto> JsonDoc (JObj [(''2'', JObj [(''y'', JInt 2)])])]
          (metadata_path ''out'' ''report.docx'') \<noteq> None"
    by (simp add: report_metadata_path)
  then have c: "''report.pdf'' \<notin> set (map fst
      (skip_processed ''out''
         [''out/report_metadata.json'' \<mapsto> JsonDoc (JObj [(''2'', JObj [(''y'', JInt 2)])])]
         (map fst [(''report.pdf'', JObj [(''1'', JArr [])])])
         [(''report.pdf'', JObj [(''1'', JArr [])])]))"
    using t [THEN conjunct2, THEN conjunct2, THEN conjunct1, rule_format] by blast
  show ?thesis
    using h a b c report_reconcile by (intro conjI)
qed

section \<open>Context builder and compiler\<close>

lemma item_part_ok:
  "element_ok item \<Longrightarrow> item_part repr item = Inr (JStr (labelled_text repr item))"
proof (cases item)
  case (JObj kvs)
  assume ok: "element_ok item"
  show ?thesis
  proof (cases "map_of kvs ''category'' = Some (JStr ''Table'')
                \<or> map_of kvs ''category'' = Some (JStr ''Image'')")
    case True
    then show ?thesis
      using JObj
      by (auto simp: item_part_def labelled_text_def dict_get_def format_value_def
          split: option.splits)
  next
    case False
    then show ?thesis
      using JObj ok
      by (auto simp: item_part_def labelled_text_def dict_get_def element_ok_def
          split: option.splits json.splits)
  qed
qed (simp_all add: element_ok_def)

lemma collect_parts_ok:
  "list_all element_ok items \<Longrightarrow>
   collect_parts repr items = Inr (map (\<lambda>item. JStr (labelled_text repr item)) items)"
  by (induction items) (simp_all add: item_part_ok)

lemma str_parts_strings: "str_parts (map JStr ss) = Some ss"
  by (induction ss) simp_all

lemma join_strs_spaces:
  "join_strs '' '' (s # ss) = s @ concat (map (\<lambda>t. '' '' @ t) ss)"
  by (induction ss arbitrary: s) simp_all

lemma page_context_ok:
  assumes "list_all element_ok items"
  shows "py_join '' '' (JStr (''Page '' @ page @ '':'') # map (\<lambda>item. JStr (labelled_text repr item)) items)
           = Inr (labelled_context repr page items)"
proof -
  have "str_parts (JStr (''Page '' @ page @ '':'') # map (\<lambda>item. JStr (labelled_text repr item)) items)
          = Some ((''Page '' @ page @ '':'') # map (labelled_text repr) items)"
    using str_parts_strings [of "map (labelled_text repr) items"] by (simp add: comp_def)
  then show ?thesis
    by (simp add: py_join_def join_strs_spaces labelled_context_def comp_def)
qed

lemma update_new_key:
  "k \<notin> fst ` set al \<Longrightarrow> AList.update k v al = al @ [(k, v)]"
  by (induction al) auto

lemma build_contexts_ok:
  assumes "distinct (map fst pages)"
    and "fst ` set contexts \<inter> fst ` set pages = {}"
    and "list_all (\<lambda>pg. page_ok (snd pg)) pages"
  shows "build_contexts repr contexts pages
           = Inr (contexts @ map (\<lambda>pg. (fst pg, labelled_context repr (fst pg) (page_elements (snd pg)))) pages)"
  using assms
proof (induction pages arbitrary: contexts)
  case Nil
  then show ?case by simp
next
  case (Cons pg pages)
  obtain page items where pg: "pg = (page, items)" by (cases pg)
  from Cons.prems(3) pg obtain its where its: "items = JArr its" "list_all element_ok its"
    by (auto simp: page_ok_def split: json.splits)
  let ?c = "labelled_context repr page its"
  have new: "page \<notin> fst ` set contexts"
    using Cons.prems(2) pg by auto
  have step: "build_contexts repr contexts (pg # pages)
                = build_contexts repr (contexts @ [(page, ?c)]) pages"
    using its pg new page_context_ok [OF its(2), of page repr]
    by (simp add: collect_parts_ok update_new_key)
  have "fst ` set (contexts @ [(page, ?c)]) \<inter> fst ` set pages = {}"
    using Cons.prems(1,2) pg by auto
  then have "build_contexts repr (contexts @ [(page, ?c)]) pages
      = Inr ((contexts @ [(page, ?c)])
            @ map (\<lambda>pg. (fst pg, labelled_context repr (fst pg) (page_elements (snd pg)))) pages)"
    using Cons.IH Cons.prems(1,3) by simp
  then show ?case
    using step pg its by (simp add: page_elements_def)
qed

lemma prepare_context_ok:
  assumes "pages_ok pages"
  shows "prepare_context_for_llm repr (JObj pages)
           = Inr (map (\<lambda>pg. (fst pg, labelled_context repr (fst pg) (page_elements (snd pg)))) pages)"
proof -
  have "distinct (map fst pages)" and "list_all (\<lambda>pg. page_ok (snd pg)) pages"
    using assms by (simp_all add: pages_ok_def)
  then show ?thesis
    using build_contexts_ok [of pages "[]" repr]
    by (simp add: prepare_context_for_llm_def)
qed

text \<open>
  C9 (context builder), as amended. For every mapping of pages to lists of elements that
  are objects, in which the content of an element that is neither a table nor an image
  is a string when present, \<^verbatim>\<open>prepare_context_for_llm\<close> raises nothing and returns, for
  every page in the order of the mapping, the string \<^verbatim>\<open>Page <page>:\<close> followed by the
  text of each element in the original order, each after a single space: the text of a
  table is \<^verbatim>\<open>Table: \<close> followed by its \<^verbatim>\<open>table_analysis\<close>, of an image
  \<^verbatim>\<open>Image: \<close> followed by its \<^verbatim>\<open>vision_analysis\<close> (the label alone when the field
  is absent), of any other element its \<^verbatim>\<open>content\<close> (empty when absent).
\<close>

theorem context_builder_amended:
  assumes "pages_ok pages"
  shows "prepare_context_for_llm repr (JObj pages)
           = Inr (map (\<lambda>pg. (fst pg, labelled_context repr (fst pg) (page_elements (snd pg)))) pages)"
  using assms by (rule prepare_context_ok)


lemma custom_id_prefix_free:
  assumes "''__page-'' @ p1 = d @ ''__page-'' @ p2" and "\<not> sublist ''__page-'' d"
  shows "d = []"
proof (rule ccontr)
  assume ne: "d \<noteq> []"
  have "d @ (''__page-'' @ p2) = ''__page-'' @ p1"
    using assms(1) by simp
  then consider us where "d = ''__page-'' @ us"
    | us where "d @ us = ''__page-''" "''__page-'' @ p2 = us @ p1"
    unfolding append_eq_append_conv2 by blast
  then show False
  proof cases
    case 1
    then have "sublist ''__page-'' d"
      by (simp only: sublist_append_rightI)
    with assms(2) show ?thesis by simp
  next
    case 2
    from 2(1) ne have "us \<in> set [''_page-'', ''page-'', ''age-'', ''ge-'', ''e-'', ''-'', '''']"
      by (auto simp: append_eq_Cons_conv)
    then show ?thesis
      using 2 assms(2) by auto
  qed
qed

lemma custom_id_inj:
  assumes "custom_id d1 p1 = custom_id d2 p2"
    and "\<not> sublist ''__page-'' d1" and "\<not> sublist ''__page-'' d2"
  shows "d1 = d2 \<and> p1 = p2"
  using assms
proof (induction d1 arbitrary: d2)
  case Nil
  then have "d2 = []"
    using custom_id_prefix_free [of p1 d2 p2] by (simp add: custom_id_def)
  with Nil show ?case by (simp add: custom_id_def)
next
  case (Cons c d1)
  show ?case
  proof (cases d2)
    case Nil
    then have "c # d1 = []"
      using Cons.prems custom_id_prefix_free [of p2 "c # d1" p1] by (simp add: custom_id_def)
    then show ?thesis by simp
  next
    case (Cons c' d2')
    have "\<not> sublist ''__page-'' d1" "\<not> sublist ''__page-'' d2'"
      using Cons.prems(2,3) Cons by (auto simp: sublist_Cons_right)
    moreover have "c = c'" "custom_id d1 p1 = custom_id d2' p2"
      using Cons.prems(1) Cons by (simp_all add: custom_id_def)
    ultimately show ?thesis
      using Cons.IH [of d2'] Cons by simp
  qed
qed


lemma page_loop_lines:
  "fst (page_loop pdf_name model sp contexts (batch_lines, pages_meta))
     = batch_lines @ map (\<lambda>c. request (custom_id pdf_name (fst c)) model sp (snd c)) contexts"
  by (induction contexts arbitrary: batch_lines pages_meta) auto

lemma pdf_loop_ok:
  assumes "list_all (\<lambda>doc. case snd doc of JObj pages \<Rightarrow> pages_ok pages | _ \<Rightarrow> False) docs"
  shows "\<exists>meta'. pdf_loop repr model sp docs (batch_lines, meta)
           = Inr (batch_lines @ concat (map (doc_requests repr model sp) docs), meta')"
  using assms
proof (induction docs arbitrary: batch_lines meta)
  case Nil
  then show ?case by simp
next
  case (Cons doc docs)
  obtain pdf_name pages where doc: "doc = (pdf_name, pages)" by (cases doc)
  from Cons.prems doc obtain ps where ps: "pages = JObj ps" "pages_ok ps"
    by (auto split: json.splits)
  let ?contexts = "map (\<lambda>pg. (fst pg, labelled_context repr (fst pg) (page_elements (snd pg)))) ps"
  have ctx: "prepare_context_for_llm repr pages = Inr ?contexts"
    using ps prepare_context_ok by simp
  define pm where "pm = snd (page_loop pdf_name model sp ?contexts (batch_lines, []))"
  have pl: "page_loop pdf_name model sp ?contexts (batch_lines, [])
      = (batch_lines @ map (\<lambda>c. request (custom_id pdf_name (fst c)) model sp (snd c)) ?contexts, pm)"
    unfolding pm_def using page_loop_lines [of pdf_name model sp ?contexts batch_lines "[]"]
    by (metis prod.collapse)
  have dr: "map (\<lambda>c. request (custom_id pdf_name (fst c)) model sp (snd c)) ?contexts
              = doc_requests repr model sp doc"
    by (simp add: doc_requests_def doc ps page_entries_def comp_def)
  have rest: "list_all (\<lambda>doc. case snd doc of JObj pages \<Rightarrow> pages_ok pages | _ \<Rightarrow> False) docs"
    using Cons.prems by simp
  obtain meta' where "pdf_loop repr model sp docs
        (batch_lines @ doc_requests repr model sp doc,
         AList.update pdf_name (JObj [(''pages'', JObj pm)]) meta)
      = Inr ((batch_lines @ doc_requests repr model sp doc)
               @ concat (map (doc_requests repr model sp) docs), meta')"
    using Cons.IH [OF rest, of "batch_lines @ doc_requests repr model sp doc"
        "AList.update pdf_name (JObj [(''pages'', JObj pm)]) meta"] by (elim exE)
  then show ?case
    using doc ctx pl dr by (intro exI [of _ meta']) simp
qed

lemma line_custom_id_request: "line_custom_id (request cid model sp context) = Some cid"
  by (simp add: line_custom_id_def request_def)

lemma doc_requests_ids:
  "map line_custom_id (concat (map (doc_requests repr model sp) docs))
     = map (\<lambda>pr. Some (custom_id (fst pr) (snd pr))) (doc_page_pairs docs)"
  by (induction docs)
    (simp_all add: doc_page_pairs_def doc_requests_def line_custom_id_request comp_def)

lemma length_doc_page_pairs:
  "length (doc_page_pairs docs) = sum_list (map (\<lambda>doc. length (page_entries (snd doc))) docs)"
  by (induction docs) (simp_all add: doc_page_pairs_def)

lemma fst_doc_page_pairs: "fst ` set (doc_page_pairs docs) \<subseteq> fst ` set docs"
  by (force simp: doc_page_pairs_def)

lemma distinct_doc_page_pairs:
  assumes "docs_ok docs"
  shows "distinct (doc_page_pairs docs)"
proof -
  have "distinct (map fst docs) \<Longrightarrow>
        list_all (\<lambda>doc. case snd doc of JObj pages \<Rightarrow> pages_ok pages | _ \<Rightarrow> False) docs \<Longrightarrow>
        distinct (doc_page_pairs docs)"
  proof (induction docs)
    case Nil
    then show ?case by (simp add: doc_page_pairs_def)
  next
    case (Cons doc docs)
    obtain pdf_name pages where doc: "doc = (pdf_name, pages)" by (cases doc)
    from Cons.prems doc obtain ps where ps: "pages = JObj ps" "pages_ok ps"
      by (auto split: json.splits)
    have split: "doc_page_pairs (doc # docs) = map (\<lambda>pg. (pdf_name, fst pg)) ps @ doc_page_pairs docs"
      by (simp add: doc_page_pairs_def doc ps page_entries_def)
    have "distinct (map fst ps)"
      using ps by (simp add: pages_ok_def)
    then have a: "distinct (map (\<lambda>pg. (pdf_name, fst pg)) ps)"
      by (simp add: distinct_map inj_on_def)
    have b: "distinct (doc_page_pairs docs)"
      using Cons by simp
    have "pdf_name \<notin> fst ` set docs"
      using Cons.prems(1) doc by auto
    then have "pdf_name \<notin> fst ` set (doc_page_pairs docs)"
      using fst_doc_page_pairs by blast
    then have c: "set (map (\<lambda>pg. (pdf_name, fst pg)) ps) \<inter> set (doc_page_pairs docs) = {}"
      by force
    show ?case
      using a b c by (simp only: split distinct_append simp_thms)
  qed
  then show ?thesis
    using assms by (simp add: docs_ok_def)
qed

lemma distinct_custom_ids:
  assumes "distinct pairs" and "\<forall>pr \<in> set pairs. \<not> sublist ''__page-'' (fst pr)"
  shows "distinct (map (\<lambda>pr. Some (custom_id (fst pr) (snd pr))) pairs)"
proof -
  have "inj_on (\<lambda>pr. Some (custom_id (fst pr) (snd pr))) (set pairs)"
  proof (rule inj_onI)
    fix x y
    assume "x \<in> set pairs" "y \<in> set pairs"
      and "Some (custom_id (fst x) (snd x)) = Some (custom_id (fst y) (snd y))"
    then have "fst x = fst y \<and> snd x = snd y"
      using assms(2) custom_id_inj [of "fst x" "snd x" "fst y" "snd y"] by simp
    then show "x = y"
      by (simp add: prod_eq_iff)
  qed
  then show ?thesis
    using assms(1) by (simp add: distinct_map)
qed

text \<open>
  C7 (compiler counting and uniqueness), as amended. For every well-formed input mapping,
  \<^verbatim>\<open>prepare_batch_file\<close> returns and the staging file holds one request line for every
  (document, page) pair, in the order of the mapping: their number is the sum of the page
  counts of the documents and their correlation identifiers are those of the pairs. The
  pairs are pairwise distinct; the identifiers are pairwise distinct when no document
  identifier contains \<^verbatim>\<open>__page-\<close>. The empty mapping is well formed and has no pair.
\<close>

theorem compiler_counting_amended:
  assumes "docs_ok docs"
  shows "\<exists>batch_lines batch_metadata.
           prepare_batch_file repr (JObj docs) sp model files
             = Inr ((''batch_requests.jsonl'', batch_metadata),
                    files(''batch_requests.jsonl'' \<mapsto> JsonLines batch_lines))
         \<and> length batch_lines = length (doc_page_pairs docs)
         \<and> length (doc_page_pairs docs)
             = sum_list (map (\<lambda>doc. length (page_entries (snd doc))) docs)
         \<and> map line_custom_id batch_lines
             = map (\<lambda>pr. Some (custom_id (fst pr) (snd pr))) (doc_page_pairs docs)
         \<and> distinct (doc_page_pairs docs)
         \<and> ((\<forall>doc \<in> set docs. \<not> sublist ''__page-'' (fst doc))
              \<longrightarrow> distinct (map line_custom_id batch_lines))"
proof -
  let ?lines = "concat (map (doc_requests repr model sp) docs)"
  let ?ids = "map (\<lambda>pr. Some (custom_id (fst pr) (snd pr))) (doc_page_pairs docs)"
  have ok: "list_all (\<lambda>doc. case snd doc of JObj pages \<Rightarrow> pages_ok pages | _ \<Rightarrow> False) docs"
    using assms by (simp add: docs_ok_def)
  obtain meta where "pdf_loop repr model sp docs ([], []) = Inr ([] @ ?lines, meta)"
    using pdf_loop_ok [OF ok, of repr model sp "[]" "[]"] by (elim exE)
  then have run: "prepare_batch_file repr (JObj docs) sp model files
      = Inr ((''batch_requests.jsonl'', JObj meta), files(''batch_requests.jsonl'' \<mapsto> JsonLines ?lines))"
    by (simp add: prepare_batch_file_def)
  have ids: "map line_custom_id ?lines = ?ids"
    by (rule doc_requests_ids)
  have "length ?lines = length (map line_custom_id ?lines)"
    by (simp only: length_map)
  also have "\<dots> = length ?ids"
    by (simp only: ids)
  also have "\<dots> = length (doc_page_pairs docs)"
    by (simp only: length_map)
  finally have len: "length ?lines = length (doc_page_pairs docs)" .
  have dp: "distinct (doc_page_pairs docs)"
    by (rule distinct_doc_page_pairs [OF assms])
  have dist: "(\<forall>doc \<in> set docs. \<not> sublist ''__page-'' (fst doc))
                \<longrightarrow> distinct (map line_custom_id ?lines)"
  proof
    assume free: "\<forall>doc \<in> set docs. \<not> sublist ''__page-'' (fst doc)"
    have "\<forall>pr \<in> set (doc_page_pairs docs). \<not> sublist ''__page-'' (fst pr)"
    proof
      fix pr assume "pr \<in> set (doc_page_pairs docs)"
      then have "fst pr \<in> fst ` set docs"
        using fst_doc_page_pairs [of docs] by blast
      then obtain doc where "doc \<in> set docs" and "fst pr = fst doc"
        by auto
      then show "\<not> sublist ''__page-'' (fst pr)"
        using free by simp
    qed
    then have "distinct ?ids"
      by (rule distinct_custom_ids [OF dp])
    then show "distinct (map line_custom_id ?lines)"
      by (simp only: ids)
  qed
  show ?thesis
  proof (rule exI [of _ ?lines], rule exI [of _ "JObj meta"], intro conjI)
    show "prepare_batch_file repr (JObj docs) sp model files
            = Inr ((''batch_requests.jsonl'', JObj meta),
                   files(''batch_requests.jsonl'' \<mapsto> JsonLines ?lines))"
      by (rule run)
    show "length ?lines = length (doc_page_pairs docs)"
      by (rule len)
    show "length (doc_page_pairs docs)
            = sum_list (map (\<lambda>doc. length (page_entries (snd doc))) docs)"
      by (rule length_doc_page_pairs)
    show "map line_custom_id ?lines = ?ids"
      by (rule ids)
    show "distinct (doc_page_pairs docs)"
      by (rule dp)
    show "(\<forall>doc \<in> set docs. \<not> sublist ''__page-'' (fst doc))
            \<longrightarrow> distinct (map line_custom_id ?lines)"
      by (rule dist)
  qed
qed


lemmas compile_simps =
  prepare_batch_file_def prepare_context_for_llm_def item_part_def dict_get_def py_join_def
  custom_id_def format_value_def text_element_def

text \<open>
  The pages of \<^verbatim>\<open>test_prepare_context_for_llm\<close>.
\<close>

theorem context_builder_witness:
  "pages_ok test_pages
 \<and> prepare_context_for_llm sample_repr (JObj test_pages)
     = Inr [(''1'', ''Page 1: Test content''), (''2'', ''Page 2: Table: Table analysis result'')]"
proof -
  have h: "pages_ok test_pages"
    by (simp add: pages_ok_def page_ok_def element_ok_def test_pages_def)
  have "map (\<lambda>pg. (fst pg, labelled_context sample_repr (fst pg) (page_elements (snd pg)))) test_pages
          = [(''1'', ''Page 1: Test content''), (''2'', ''Page 2: Table: Table analysis result'')]"
    by (simp add: test_pages_def labelled_context_def labelled_text_def page_elements_def
        format_value_def)
  then show ?thesis
    using context_builder_amended [OF h, of sample_repr] h by simp
qed

text \<open>
  C9 as stated fails. A table with the analysis \<^verbatim>\<open>T\<close> contributes \<^verbatim>\<open>Table: T\<close>, not
  its analysis field alone, whether the parts of the claim are joined with spaces or with
  nothing; an image without analysis contributes \<^verbatim>\<open>Image: \<close>, not the empty string;
  and an element whose content is \<^verbatim>\<open>null\<close> makes \<^verbatim>\<open>" ".join(parts)\<close> raise TypeError,
  which the function does not catch.
\<close>

theorem context_builder_counterexample:
  "prepare_context_for_llm sample_repr
      (JObj [(''1'', JArr [JObj [(''category'', JStr ''Table''), (''table_analysis'', JStr ''T'')]])])
     = Inr [(''1'', ''Page 1: Table: T'')]
 \<and> spec_page_context '' '' ''1''
      [JObj [(''category'', JStr ''Table''), (''table_analysis'', JStr ''T'')]] = ''Page 1: T''
 \<and> spec_page_context [] ''1''
      [JObj [(''category'', JStr ''Table''), (''table_analysis'', JStr ''T'')]] = ''Page 1:T''
 \<and> prepare_context_for_llm sample_repr (JObj [(''1'', JArr [JObj [(''category'', JStr ''Image'')]])])
     = Inr [(''1'', ''Page 1: Image: '')]
 \<and> spec_page_context '' '' ''1'' [JObj [(''category'', JStr ''Image'')]] = ''Page 1: ''
 \<and> prepare_context_for_llm sample_repr
      (JObj [(''1'', JArr [JObj [(''category'', JStr ''Text''), (''content'', JNull)]])])
     = Inl TypeError"
  by (simp add: compile_simps spec_page_context_def spec_effective_text_def)

text \<open>
  C8 (compile scenario), as amended. For the documents \<^verbatim>\<open>A.pdf\<close> with page 1 and
  \<^verbatim>\<open>B.pdf\<close> with pages 1 and 2, every page given as a list with one text element
  (\<^verbatim>\<open>text1\<close>, \<^verbatim>\<open>text2\<close>, \<^verbatim>\<open>text3\<close>), \<^verbatim>\<open>prepare_batch_file\<close> writes exactly
  three request lines, with the correlation identifiers \<^verbatim>\<open>A.pdf__page-1\<close>,
  \<^verbatim>\<open>B.pdf__page-1\<close> and \<^verbatim>\<open>B.pdf__page-2\<close>, and returns the metadata skeleton of
  the three pages.
\<close>

theorem compile_scenario_amended:
  "prepare_batch_file repr (JObj typed_scenario_docs) system_prompt model files
     = Inr ((''batch_requests.jsonl'',
             JObj [(''A.pdf'', JObj [(''pages'', JObj [(''1'', JObj [(''status'', JStr ''queued'')])])]),
                   (''B.pdf'', JObj [(''pages'', JObj [(''1'', JObj [(''status'', JStr ''queued'')]),
                                                       (''2'', JObj [(''status'', JStr ''queued'')])])])]),
            files(''batch_requests.jsonl'' \<mapsto>
              JsonLines [request ''A.pdf__page-1'' model system_prompt ''Page 1: text1'',
                         request ''B.pdf__page-1'' model system_prompt ''Page 1: text2'',
                         request ''B.pdf__page-2'' model system_prompt ''Page 2: text3'']))
 \<and> map line_custom_id
      [request ''A.pdf__page-1'' model system_prompt ''Page 1: text1'',
       request ''B.pdf__page-1'' model system_prompt ''Page 1: text2'',
       request ''B.pdf__page-2'' model system_prompt ''Page 2: text3'']
     = [Some ''A.pdf__page-1'', Some ''B.pdf__page-1'', Some ''B.pdf__page-2'']"
  by (simp add: compile_simps typed_scenario_docs_def line_custom_id_request)

text \<open>
  C8 as stated fails: with the input
  \<^verbatim>\<open>{"A.pdf": {"1": "text1"}, "B.pdf": {"1": "text2", "2": "text3"}}\<close> the context
  builder iterates over the characters of \<^verbatim>\<open>text1\<close> and \<^verbatim>\<open>item.get\<close> raises
  AttributeError on the first of them; no request line is produced.
\<close>

theorem compile_scenario_counterexample:
  "prepare_batch_file sample_repr (JObj scenario_docs) ''Extract metadata.'' ''gpt-4o-mini'' Map.empty
     = Inl AttributeError"
  by (simp add: compile_simps scenario_docs_def)

text \<open>
  The document of \<^verbatim>\<open>test_prepare_batch_file\<close> gives two lines; the empty mapping gives
  none.
\<close>

theorem compiler_counting_witness:
  "docs_ok test_docs
 \<and> map line_custom_id
      (batch_lines_of (prepare_batch_file sample_repr (JObj test_docs)
                         ''Extract metadata.'' ''dummy-model'' Map.empty))
     = [Some ''dummy.pdf__page-1'', Some ''dummy.pdf__page-2'']
 \<and> docs_ok []
 \<and> batch_lines_of (prepare_batch_file sample_repr (JObj [])
                      ''Extract metadata.'' ''dummy-model'' Map.empty) = []"
proof -
  have h: "docs_ok test_docs"
    by (simp add: docs_ok_def pages_ok_def page_ok_def element_ok_def test_docs_def)
  have h0: "docs_ok []"
    by (simp add: docs_ok_def)
  obtain batch_lines batch_metadata where
    r: "prepare_batch_file sample_repr (JObj test_docs) ''Extract metadata.'' ''dummy-model'' Map.empty
          = Inr ((''batch_requests.jsonl'', batch_metadata),
                 [''batch_requests.jsonl'' \<mapsto> JsonLines batch_lines])"
    and i: "map line_custom_id batch_lines
          = map (\<lambda>pr. Some (custom_id (fst pr) (snd pr))) (doc_page_pairs test_docs)"
    using compiler_counting_amended [OF h, of sample_repr "''Extract metadata.''" "''dummy-model''" Map.empty]
    by (elim exE conjE)
  obtain lines0 meta0 where
    r0: "prepare_batch_file sample_repr (JObj []) ''Extract metadata.'' ''dummy-model'' Map.empty
          = Inr ((''batch_requests.jsonl'', meta0), [''batch_requests.jsonl'' \<mapsto> JsonLines lines0])"
    and l0: "length lines0 = length (doc_page_pairs [])"
    using compiler_counting_amended [OF h0, of sample_repr "''Extract metadata.''" "''dummy-model''" Map.empty]
    by (elim exE conjE)
  have a: "batch_lines_of (prepare_batch_file sample_repr (JObj test_docs)
             ''Extract metadata.'' ''dummy-model'' Map.empty) = batch_lines"
    by (simp add: r batch_lines_of_def)
  have b: "map (\<lambda>pr. Some (custom_id (fst pr) (snd pr))) (doc_page_pairs test_docs)
             = [Some ''dummy.pdf__page-1'', Some ''dummy.pdf__page-2'']"
    by (simp add: doc_page_pairs_def test_docs_def page_entries_def custom_id_def)
  have c: "batch_lines_of (prepare_batch_file sample_repr (JObj [])
             ''Extract metadata.'' ''dummy-model'' Map.empty) = []"
    using l0 by (simp add: r0 batch_lines_of_def doc_page_pairs_def)
  show ?thesis
    using h h0 a b c i by simp
qed

text \<open>
  C7 as stated fails: the pairs (\<^verbatim>\<open>a\<close>, \<^verbatim>\<open>b__page-c\<close>) and (\<^verbatim>\<open>a__page-b\<close>, \<^verbatim>\<open>c\<close>)
  are distinct and both get the identifier \<^verbatim>\<open>a__page-b__page-c\<close>.
\<close>

theorem compiler_counting_counterexample:
  "docs_ok colliding_docs
 \<and> distinct (doc_page_pairs colliding_docs)
 \<and> map line_custom_id
      (batch_lines_of (prepare_batch_file sample_repr (JObj colliding_docs)
                         ''Extract metadata.'' ''gpt-4o-mini'' Map.empty))
     = [Some ''a__page-b__page-c'', Some ''a__page-b__page-c'']"
  by (simp add: compile_simps colliding_docs_def docs_ok_def pages_ok_def page_ok_def
      doc_page_pairs_def page_entries_def batch_lines_of_def line_custom_id_request)

section \<open>The driver and an outstanding job\<close>

lemma driver_paths:
  "os_path_join ''out'' ''state'' = ''out/state''"
  "os_path_join ''out/state'' ''batch_info.json'' = ''out/state/batch_info.json''"
  by (simp_all add: os_path_join_def suffix_def)

lemma dummy_stem: "path_stem ''dummy.pdf'' = ''dummy''"
  by (simp add: path_stem_def path_name_def py_split_def Let_def)

lemma dummy_metadata_path: "metadata_path ''out'' ''dummy.pdf'' = ''out/dummy_metadata.json''"
  by (simp add: metadata_path_def dummy_stem os_path_join_def suffix_def)

lemma validating_check:
  "check_batch_status (dummy_client ''validating'' None []) ''out/state'' ''out'' validating_files
     = (''validating'',
        validating_files(''out/state/batch_info.json'' \<mapsto> JsonDoc (sample_record ''validating'')))"
  by (simp add: check_batch_status_def driver_paths validating_files_def json_load_def
      sample_record_def dict_get_def dummy_client_def dummy_retrieve_def)

text \<open>
  C1 (at most one outstanding job) at a failing input. The job record of \<^verbatim>\<open>batch_1\<close>
  exists, recorded as \<^verbatim>\<open>validating\<close>, and the service reports the job as
  \<^verbatim>\<open>validating\<close>. \<^verbatim>\<open>check_batch_status\<close> returns \<^verbatim>\<open>validating\<close>, which is in neither of
  the driver's two lists, so \<^verbatim>\<open>process_all_pdfs\<close> takes the branch it logs as
  \<^verbatim>\<open>Previous batch job failed\<close>: it removes the record, compiles a batch, calls the
  submitter, and the record file afterwards is the record of a second job,
  \<^verbatim>\<open>dummy_batch_id\<close>.
\<close>

theorem driver_resubmits_while_validating:
  "validating_files ''out/state/batch_info.json'' = Some (JsonDoc (sample_record ''validating''))
 \<and> fst (check_batch_status (dummy_client ''validating'' None []) ''out/state'' ''out'' validating_files)
     = ''validating''
 \<and> fst (process_all_pdfs (dummy_client ''validating'' None []) ''Extract metadata.''
          ''analyzed.json'' ''out'' ''gpt-4o-mini'' validating_files)
     = Inr (SubmitAttempted (Some ''dummy_batch_id''))
 \<and> snd (process_all_pdfs (dummy_client ''validating'' None []) ''Extract metadata.''
          ''analyzed.json'' ''out'' ''gpt-4o-mini'' validating_files) ''out/state/batch_info.json''
     = Some (JsonDoc (JObj [(''batch_id'', JStr ''dummy_batch_id''),
                            (''input_file_id'', JStr ''dummy_file_id''),
                            (''created_at'', JStr ''2025-03-01T12:00:00''),
                            (''status'', JStr ''submitted''),
                            (''metadata'',
                               JObj [(''dummy.pdf'',
                                      JObj [(''pages'',
                                             JObj [(''1'', JObj [(''status'', JStr ''queued'')]),
                                                   (''2'', JObj [(''status'', JStr ''queued'')])])])])]))"
proof -
  have a: "validating_files ''out/state/batch_info.json'' = Some (JsonDoc (sample_record ''validating''))"
    by (simp add: validating_files_def)
  let ?files1 = "(validating_files(''out/state/batch_info.json'' \<mapsto> JsonDoc (sample_record ''validating'')))
                   (''out/state/batch_info.json'' := None)"
  have j: "json_load ?files1 ''analyzed.json'' = Inr (JObj test_docs)"
    by (simp add: json_load_def validating_files_def)
  have k: "skip_processed ''out'' ?files1 (map fst test_docs) test_docs = test_docs"
    by (simp add: test_docs_def dummy_metadata_path validating_files_def)
  have ne: "test_docs \<noteq> []"
    by (simp add: test_docs_def)
  obtain meta lines where
    p: "prepare_batch_file sample_repr (JObj test_docs) ''Extract metadata.'' ''gpt-4o-mini'' ?files1
          = Inr ((''batch_requests.jsonl'', meta), ?files1(''batch_requests.jsonl'' \<mapsto> JsonLines lines))"
    and m: "meta = JObj [(''dummy.pdf'',
                          JObj [(''pages'',
                                 JObj [(''1'', JObj [(''status'', JStr ''queued'')]),
                                       (''2'', JObj [(''status'', JStr ''queued'')])])])]"
    by (simp add: compile_simps test_docs_def)
  have s: "submit_batch_job (dummy_client ''validating'' None []) ''batch_requests.jsonl'' ''out/state''
             meta (?files1(''batch_requests.jsonl'' \<mapsto> JsonLines lines))
           = (Some ''dummy_batch_id'',
              ?files1(''batch_requests.jsonl'' \<mapsto> JsonLines lines,
                      ''out/state/batch_info.json'' \<mapsto>
                        JsonDoc (batch_info_record ''dummy_batch_id'' ''dummy_file_id''
                                   ''2025-03-01T12:00:00'' meta)))"
    by (simp add: submit_batch_job_def upload_def dummy_client_def dummy_files_create_def
        dummy_batches_create_def driver_paths)
  have n: "submit_new (dummy_client ''validating'' None []) ''Extract metadata.'' ''analyzed.json''
             ''out'' ''out/state'' ''gpt-4o-mini'' ?files1
           = (Inr (SubmitAttempted (Some ''dummy_batch_id'')),
              (?files1(''batch_requests.jsonl'' \<mapsto> JsonLines lines,
                      ''out/state/batch_info.json'' \<mapsto>
                        JsonDoc (batch_info_record ''dummy_batch_id'' ''dummy_file_id''
                                   ''2025-03-01T12:00:00'' meta)))(''batch_requests.jsonl'' := None))"
    using j k ne p s
    by (simp add: submit_new_def dummy_client_def)
  have r: "process_all_pdfs (dummy_client ''validating'' None []) ''Extract metadata.''
            ''analyzed.json'' ''out'' ''gpt-4o-mini'' validating_files
           = (Inr (SubmitAttempted (Some ''dummy_batch_id'')),
              (?files1(''batch_requests.jsonl'' \<mapsto> JsonLines lines,
                      ''out/state/batch_info.json'' \<mapsto>
                        JsonDoc (batch_info_record ''dummy_batch_id'' ''dummy_file_id''
                                   ''2025-03-01T12:00:00'' meta)))(''batch_requests.jsonl'' := None))"
    using a n validating_check
    by (simp add: process_all_pdfs_def driver_paths)
  show ?thesis
    using a validating_check r m by (simp add: batch_info_record_def)
qed


lemma check_batch_status_passes_status:
  assumes "json_load files (os_path_join state_dir ''batch_info.json'') = Inr (JObj batch_info)"
    and "truthy (dict_get batch_info ''batch_id'' JNull)"
    and "batches_retrieve e (dict_get batch_info ''batch_id'' JNull) = Inr (status, output_file_id)"
    and "status \<noteq> ''completed''"
  shows "check_batch_status e state_dir output_dir files
           = (status, files(os_path_join state_dir ''batch_info.json'' \<mapsto>
                JsonDoc (JObj (AList.update ''status'' (JStr status) batch_info))))"
proof -
  have "files (os_path_join state_dir ''batch_info.json'') \<noteq> None"
    using assms(1) by (auto simp: json_load_def split: option.splits)
  then show ?thesis
    using assms by (cases output_file_id) (auto simp: check_batch_status_def Let_def)
qed

text \<open>
  What the driver does guarantee: when the status the service reports at the check is
  \<^verbatim>\<open>submitted\<close> or \<^verbatim>\<open>in_progress\<close>, the run stops at
  \<^verbatim>\<open>Batch job is still processing\<close>; the record is kept with its status refreshed, and
  nothing else is read, written or submitted.
\<close>

lemma driver_waits_while_in_progress:
  assumes "json_load files (os_path_join (os_path_join output_dir ''state'') ''batch_info.json'')
             = Inr (JObj batch_info)"
    and "truthy (dict_get batch_info ''batch_id'' JNull)"
    and "batches_retrieve e (dict_get batch_info ''batch_id'' JNull) = Inr (status, output_file_id)"
    and "status = ''submitted'' \<or> status = ''in_progress''"
  shows "process_all_pdfs e system_prompt analyzed_data_file output_dir model files
           = (Inr StillProcessing,
              files(os_path_join (os_path_join output_dir ''state'') ''batch_info.json'' \<mapsto>
                JsonDoc (JObj (AList.update ''status'' (JStr status) batch_info))))"
proof -
  let ?p = "os_path_join (os_path_join output_dir ''state'') ''batch_info.json''"
  have ex: "files ?p \<noteq> None"
    using assms(1) by (auto simp: json_load_def split: option.splits)
  have ne: "status \<noteq> ''completed''" "status \<noteq> ''completed_and_processed''"
    using assms(4) by auto
  have "check_batch_status e (os_path_join output_dir ''state'') output_dir files
          = (status, files(?p \<mapsto> JsonDoc (JObj (AList.update ''status'' (JStr status) batch_info))))"
    using assms(1-3) ne(1) by (rule check_batch_status_passes_status)
  then show ?thesis
    using ex ne assms(4) by (auto simp: process_all_pdfs_def Let_def)
qed

end
